theory Spec2Isabelle
  imports Complex_Main
begin

section \<open>Strings, addresses and numbers\<close>

text \<open>
  Addresses and transaction hashes are hexadecimal strings, as in the TypeScript source.
  JavaScript \<open>number\<close>s that carry USD amounts are modelled as exact rationals, \<open>bigint\<close>s
  and block numbers as \<open>int\<close>. Rounding of IEEE doubles is outside the model.
\<close>

type_synonym Address = string

definition lowerChar :: "char \<Rightarrow> char" where
  "lowerChar c =
     (case map_of (zip ''ABCDEFGHIJKLMNOPQRSTUVWXYZ'' ''abcdefghijklmnopqrstuvwxyz'') c of
        Some d \<Rightarrow> d
      | None \<Rightarrow> c)"

definition toLowerCase :: "string \<Rightarrow> string" where
  "toLowerCase s = map lowerChar s"

section \<open>config/blockchain.ts: BASE\_TOKENS\<close>

definition WETH :: Address where
  "WETH = ''0x4200000000000000000000000000000000000006''"

definition USDC :: Address where
  "USDC = ''0x833589fCD6eDb6E08f4c7C32D4f71b54bdA02913''"

definition DAI :: Address where
  "DAI = ''0x50c5725949A6F0c72E6C4a641F24049A917DB0Cb''"

definition USDT :: Address where
  "USDT = ''0xfde4C96c8593536E31F229EA8f37b2ADa2699bb2''"

section \<open>services/price.service.ts: PriceService\<close>

record CacheEntry =
  cache_price :: rat
  cache_timestamp :: int

type_synonym PriceCache = "string \<rightharpoonup> CacheEntry"

text \<open>The outcome of the CoinGecko \<open>fetch\<close>: it throws, answers with a non-OK status, or
  answers OK with a body whose \<open>ethereum?.usd\<close> field is present or absent.\<close>

datatype FetchResult = FetchThrows | FetchNotOk | FetchOk "rat option"

definition CACHE_TTL :: int where
  "CACHE_TTL = 5 * 60 * 1000"

text \<open>\<open>getWethPrice\<close>: \<open>data.ethereum?.usd || 2500\<close> inside a try/catch that falls through
  to \<open>return 2500\<close>.\<close>

fun getWethPrice :: "FetchResult \<Rightarrow> rat" where
  "getWethPrice FetchThrows = 2500"
| "getWethPrice FetchNotOk = 2500"
| "getWethPrice (FetchOk None) = 2500"
| "getWethPrice (FetchOk (Some usd)) = (if usd = 0 then 2500 else usd)"

definition isStablecoin :: "Address \<Rightarrow> bool" where
  "isStablecoin tokenAddress \<longleftrightarrow>
     toLowerCase tokenAddress = toLowerCase USDC \<or>
     toLowerCase tokenAddress = toLowerCase DAI \<or>
     toLowerCase tokenAddress = toLowerCase USDT"

text \<open>\<open>getPriceFromUniswap\<close>: nothing inside its \<open>try\<close> can throw in this model
  (\<open>getWethPrice\<close> catches its own errors), so the \<open>catch\<close> branch, which returns 0, has no
  caller.\<close>

definition getPriceFromUniswap :: "FetchResult \<Rightarrow> Address \<Rightarrow> rat" where
  "getPriceFromUniswap fetch tokenAddress =
     (let wethPriceUsd = getWethPrice fetch in
      if toLowerCase tokenAddress = toLowerCase WETH then wethPriceUsd
      else if isStablecoin tokenAddress then 1
      else 0)"

definition getFallbackPrice :: "Address \<Rightarrow> rat" where
  "getFallbackPrice tokenAddress =
     (let addr = toLowerCase tokenAddress in
      if addr = toLowerCase USDC \<or> addr = toLowerCase DAI \<or> addr = toLowerCase USDT then 1
      else if addr = toLowerCase WETH then 2500
      else 0)"

text \<open>\<open>getTokenPriceUsd\<close> reads the clock (\<open>Date.now()\<close>, the argument \<open>now\<close>) and the
  private cache, and returns the price with the cache as it leaves it.\<close>

definition getTokenPriceUsd ::
  "FetchResult \<Rightarrow> int \<Rightarrow> PriceCache \<Rightarrow> Address \<Rightarrow> rat \<times> PriceCache" where
  "getTokenPriceUsd fetch now cache tokenAddress =
     (let cacheKey = toLowerCase tokenAddress in
      case cache cacheKey of
        Some cached \<Rightarrow>
          if now - cache_timestamp cached < CACHE_TTL then (cache_price cached, cache)
          else
            (let price0 = getPriceFromUniswap fetch tokenAddress;
                 price = (if price0 = 0 then getFallbackPrice tokenAddress else price0)
             in (price,
                 if price > 0
                 then cache(cacheKey \<mapsto> \<lparr>cache_price = price, cache_timestamp = now\<rparr>)
                 else cache))
      | None \<Rightarrow>
          (let price0 = getPriceFromUniswap fetch tokenAddress;
               price = (if price0 = 0 then getFallbackPrice tokenAddress else price0)
           in (price,
               if price > 0
               then cache(cacheKey \<mapsto> \<lparr>cache_price = price, cache_timestamp = now\<rparr>)
               else cache)))"

definition clearCache :: "PriceCache \<Rightarrow> PriceCache" where
  "clearCache cache = Map.empty"

text \<open>\<open>calculateUsdValue\<close>: \<open>Number(amount) / 10 ** decimals * price\<close>.\<close>

definition calculateUsdValue ::
  "FetchResult \<Rightarrow> int \<Rightarrow> PriceCache \<Rightarrow> Address \<Rightarrow> int \<Rightarrow> nat \<Rightarrow> rat \<times> PriceCache" where
  "calculateUsdValue fetch now cache tokenAddress amount decimals =
     (let (price, cache') = getTokenPriceUsd fetch now cache tokenAddress;
          tokenAmount = of_int amount / 10 ^ decimals
      in (tokenAmount * price, cache'))"

text \<open>The cache is a private field of \<open>PriceService\<close>: the only code that writes it is
  \<open>getTokenPriceUsd\<close> and \<open>clearCache\<close>, starting from the empty map of the constructor.\<close>

inductive reachableCache :: "PriceCache \<Rightarrow> bool" where
  cache_init: "reachableCache Map.empty"
| cache_clear: "reachableCache cache \<Longrightarrow> reachableCache (clearCache cache)"
| cache_resolve:
    "reachableCache cache \<Longrightarrow> reachableCache (snd (getTokenPriceUsd fetch now cache tokenAddress))"

text \<open>What every reachable cache satisfies: a stablecoin key holds the price 1, and every
  key is the lower-cased address of one of the four base tokens.\<close>

definition cacheSound :: "PriceCache \<Rightarrow> bool" where
  "cacheSound cache \<longleftrightarrow>
     (\<forall>k e. cache k = Some e \<longrightarrow>
        (k = toLowerCase WETH \<or> k = toLowerCase USDC \<or> k = toLowerCase DAI \<or> k = toLowerCase USDT) \<and>
        (k \<noteq> toLowerCase WETH \<longrightarrow> cache_price e = 1))"

text \<open>The price \<open>getTokenPriceUsd\<close> computes on a cache miss.\<close>

definition resolvedPrice :: "FetchResult \<Rightarrow> Address \<Rightarrow> rat" where
  "resolvedPrice fetch tokenAddress =
     (if getPriceFromUniswap fetch tokenAddress = 0 then getFallbackPrice tokenAddress
      else getPriceFromUniswap fetch tokenAddress)"

section \<open>services/blockchain.service.ts: BlockchainService\<close>

text \<open>A decoded ERC-20 \<open>Transfer\<close> log as viem returns it: the emitting token contract,
  the transaction, the block, and the event arguments.\<close>

record TransferLog =
  log_address :: Address
  log_transactionHash :: string
  log_blockNumber :: int
  log_from :: Address
  log_to :: Address
  log_value :: int

record Receipt =
  receipt_blockNumber :: int

record Transaction =
  tx_from :: Address
  tx_to :: "Address option"

record Block =
  block_timestamp :: int

record SwapEvent =
  swap_txHash :: string
  swap_blockNumber :: int
  swap_timestamp :: int
  swap_tokenIn :: Address
  swap_tokenOut :: Address
  swap_amountIn :: int
  swap_amountOut :: int
  swap_from :: Address
  swap_to :: Address

record TokenInfo =
  ti_address :: Address
  ti_name :: string
  ti_symbol :: string
  ti_decimals :: nat

text \<open>The RPC node behind \<open>publicClient\<close>. Each read either answers or throws; a throw is
  \<open>None\<close> (for \<open>getLogs\<close>, the flag \<open>chain_logsAvailable\<close> is false).\<close>

record Chain =
  chain_logs :: "TransferLog list"
  chain_logsAvailable :: bool
  chain_receipts :: "string \<Rightarrow> Receipt option"
  chain_transactions :: "string \<Rightarrow> Transaction option"
  chain_blocks :: "int \<Rightarrow> Block option"
  chain_erc20 :: "Address \<Rightarrow> (string \<times> string \<times> nat) option"
  chain_blockNumber :: "int option"

datatype LogFilter = FromIs Address | ToIs Address

fun matchesFilter :: "LogFilter \<Rightarrow> TransferLog \<Rightarrow> bool" where
  "matchesFilter (FromIs a) l = (toLowerCase (log_from l) = toLowerCase a)"
| "matchesFilter (ToIs a) l = (toLowerCase (log_to l) = toLowerCase a)"

text \<open>\<open>publicClient.getLogs\<close> with \<open>args: {from}\<close> or \<open>args: {to}\<close> over an inclusive block
  range: the node compares addresses as 20-byte values, that is, without regard to the
  letter case of their hexadecimal spelling.\<close>

definition getLogs :: "Chain \<Rightarrow> LogFilter \<Rightarrow> int \<Rightarrow> int \<Rightarrow> TransferLog list option" where
  "getLogs chain flt fromBlock toBlock =
     (if chain_logsAvailable chain
      then Some (filter (\<lambda>l. matchesFilter flt l \<and> fromBlock \<le> log_blockNumber l \<and>
                               log_blockNumber l \<le> toBlock) (chain_logs chain))
      else None)"

text \<open>The \<open>Map<string, Transfer[]>\<close> of \<open>getSwapEventsForAddress\<close>, in insertion order of
  its keys: \<open>pushTransfer\<close> is one turn of the grouping loop.\<close>

fun pushTransfer ::
  "TransferLog \<Rightarrow> (string \<times> TransferLog list) list \<Rightarrow> (string \<times> TransferLog list) list" where
  "pushTransfer t [] = [(log_transactionHash t, [t])]"
| "pushTransfer t ((h, ts) # groups) =
     (if h = log_transactionHash t then (h, ts @ [t]) # groups
      else (h, ts) # pushTransfer t groups)"

definition groupByTx :: "TransferLog list \<Rightarrow> (string \<times> TransferLog list) list" where
  "groupByTx allTransfers = foldl (\<lambda>txGroups transfer. pushTransfer transfer txGroups) [] allTransfers"

definition ZERO_ADDRESS :: Address where
  "ZERO_ADDRESS = ''0x0000000000000000000000000000000000000000''"

definition outboundOf :: "Address \<Rightarrow> TransferLog list \<Rightarrow> TransferLog list" where
  "outboundOf agentAddress transfers =
     filter (\<lambda>t. toLowerCase (log_from t) = toLowerCase agentAddress) transfers"

definition inboundOf :: "Address \<Rightarrow> TransferLog list \<Rightarrow> TransferLog list" where
  "inboundOf agentAddress transfers =
     filter (\<lambda>t. toLowerCase (log_to t) = toLowerCase agentAddress) transfers"

text \<open>\<open>parseSwapFromTransfers\<close>: the three lookups stand inside the \<open>try\<close>, so a throw of
  any of them gives \<open>null\<close>.\<close>

definition parseSwapFromTransfers ::
  "Chain \<Rightarrow> string \<Rightarrow> TransferLog list \<Rightarrow> Address \<Rightarrow> SwapEvent option" where
  "parseSwapFromTransfers chain txHash transfers agentAddress =
     (case chain_receipts chain txHash of
        None \<Rightarrow> None
      | Some receipt \<Rightarrow>
     (case chain_transactions chain txHash of
        None \<Rightarrow> None
      | Some tx \<Rightarrow>
     (case chain_blocks chain (receipt_blockNumber receipt) of
        None \<Rightarrow> None
      | Some block \<Rightarrow>
          (let transfersOut = outboundOf agentAddress transfers;
               transfersIn = inboundOf agentAddress transfers
           in if length transfersOut > 0 \<and> length transfersIn > 0
              then Some \<lparr>swap_txHash = txHash,
                         swap_blockNumber = receipt_blockNumber receipt,
                         swap_timestamp = block_timestamp block,
                         swap_tokenIn = log_address (last transfersIn),
                         swap_tokenOut = log_address (hd transfersOut),
                         swap_amountIn = log_value (last transfersIn),
                         swap_amountOut = log_value (hd transfersOut),
                         swap_from = tx_from tx,
                         swap_to = (case tx_to tx of
                                      None \<Rightarrow> ZERO_ADDRESS
                                    | Some a \<Rightarrow> if a = [] then ZERO_ADDRESS else a)\<rparr>
              else None))))"

definition parseGroup :: "Chain \<Rightarrow> Address \<Rightarrow> string \<times> TransferLog list \<Rightarrow> SwapEvent option" where
  "parseGroup chain address g =
     (if length (snd g) \<ge> 2 then parseSwapFromTransfers chain (fst g) (snd g) address else None)"

text \<open>\<open>getSwapEventsForAddress\<close>; \<open>Array.prototype.sort\<close> is stable, as \<open>sort_key\<close> is. A
  throw of \<open>getLogs\<close> lands in the outer \<open>catch\<close>, which returns the empty list.\<close>

definition getSwapEventsForAddress :: "Chain \<Rightarrow> Address \<Rightarrow> int \<Rightarrow> int \<Rightarrow> SwapEvent list" where
  "getSwapEventsForAddress chain address fromBlock toBlock =
     (case getLogs chain (FromIs address) fromBlock toBlock of
        None \<Rightarrow> []
      | Some transfersOut \<Rightarrow>
     (case getLogs chain (ToIs address) fromBlock toBlock of
        None \<Rightarrow> []
      | Some transfersIn \<Rightarrow>
          (let allTransfers = transfersOut @ transfersIn;
               txGroups = groupByTx allTransfers;
               swaps = List.map_filter (parseGroup chain address) txGroups
           in sort_key swap_blockNumber swaps)))"

definition getTokenInfo :: "Chain \<Rightarrow> Address \<Rightarrow> TokenInfo option" where
  "getTokenInfo chain tokenAddress =
     (case chain_erc20 chain tokenAddress of
        None \<Rightarrow> None
      | Some (name, symbol, decimals) \<Rightarrow>
          Some \<lparr>ti_address = tokenAddress, ti_name = name, ti_symbol = symbol,
                ti_decimals = decimals\<rparr>)"

definition getCurrentBlock :: "Chain \<Rightarrow> int option" where
  "getCurrentBlock chain = chain_blockNumber chain"

section \<open>The relational store: rows of the Trade and Agent tables\<close>

text \<open>A persisted row of the \<open>Trade\<close> table. Amounts are kept as the integers whose
  decimal strings the source stores.\<close>

record Trade =
  trade_agentId :: string
  trade_txHash :: string
  trade_blockNumber :: int
  trade_timestamp :: int
  trade_dex :: string
  trade_type :: string
  trade_tokenInAddress :: Address
  trade_tokenInSymbol :: string
  trade_tokenInDecimals :: nat
  trade_amountIn :: int
  trade_tokenOutAddress :: Address
  trade_tokenOutSymbol :: string
  trade_tokenOutDecimals :: nat
  trade_amountOut :: int
  trade_valueUsd :: rat
  trade_profitLossUsd :: rat

record Agent =
  agent_id :: string
  agent_username :: string
  agent_totalVolumeUsd :: rat
  agent_totalProfitUsd :: rat
  agent_winRate :: rat
  agent_totalTrades :: nat

section \<open>services/websocket.service.ts: WebSocketService\<close>

text \<open>The members of the enum \<open>WebSocketEvent\<close> that the indexing pipeline publishes.\<close>

definition AGENT_STATS_UPDATED :: string where
  "AGENT_STATS_UPDATED = ''agent:stats_updated''"

definition TRADE_INDEXED :: string where
  "TRADE_INDEXED = ''trade:indexed''"

definition LEADERBOARD_UPDATED :: string where
  "LEADERBOARD_UPDATED = ''leaderboard:updated''"

text \<open>The \<open>data\<close> object of a payload: its \<open>agentId\<close> property, when it has one, and the
  rest of its content.\<close>

datatype EventBody = TradeBody Trade | StatsBody Agent | OtherBody string

record EventData =
  data_agentId :: "string option"
  data_body :: EventBody

record WebSocketPayload =
  payload_event :: string
  payload_data :: EventData
  payload_timestamp :: int














section \<open>services/trading.service.ts: TradingService\<close>

text \<open>The mutable world of an indexing pass: the \<open>Trade\<close> and \<open>Agent\<close> tables, the price
  cache of the process, and the messages published so far on the Redis channel.\<close>

record Store =
  store_trades :: "Trade list"
  store_agents :: "string \<rightharpoonup> Agent"
  store_priceCache :: PriceCache
  store_channel :: "WebSocketPayload list"

text \<open>What a pass reads from outside: the chain, the clock, the spot-price feed, and
  which writes fail (\<open>prisma.trade.create\<close> for a transaction hash, the Redis publish).\<close>

record Env =
  env_chain :: Chain
  env_now :: int
  env_fetch :: FetchResult
  env_createFails :: "string \<Rightarrow> bool"
  env_redisDown :: bool

datatype Error = RpcError | DbError | RedisError | RecordNotFound

definition publishEvent :: "Env \<Rightarrow> string \<Rightarrow> EventData \<Rightarrow> Store \<Rightarrow> Error + Store" where
  "publishEvent env event d st =
     (if env_redisDown env then Inl RedisError
      else Inr (st\<lparr>store_channel := store_channel st @
                  [\<lparr>payload_event = event, payload_data = d, payload_timestamp = env_now env\<rparr>]\<rparr>))"

text \<open>\<open>prisma.trade.findUnique({ where: { txHash } })\<close>.\<close>

definition findUnique :: "Trade list \<Rightarrow> string \<Rightarrow> Trade option" where
  "findUnique trades txHash = find (\<lambda>t. trade_txHash t = txHash) trades"

text \<open>\<open>prisma.trade.findMany({ where: { agentId } })\<close>.\<close>

definition findManyByAgent :: "Trade list \<Rightarrow> string \<Rightarrow> Trade list" where
  "findManyByAgent trades agentId = filter (\<lambda>t. trade_agentId t = agentId) trades"

text \<open>\<open>prisma.trade.findFirst({ where: { agentId }, orderBy: { blockNumber: 'desc' } })\<close>:
  a row of the agent with the greatest block number.\<close>

fun maxByBlock :: "Trade \<Rightarrow> Trade list \<Rightarrow> Trade" where
  "maxByBlock t [] = t"
| "maxByBlock t (u # us) =
     maxByBlock (if trade_blockNumber u > trade_blockNumber t then u else t) us"

definition findFirstDesc :: "Trade list \<Rightarrow> string \<Rightarrow> Trade option" where
  "findFirstDesc trades agentId =
     (case findManyByAgent trades agentId of
        [] \<Rightarrow> None
      | t # ts \<Rightarrow> Some (maxByBlock t ts))"

text \<open>How one turn of the \<open>for (const swap of swaps)\<close> loop of \<open>indexAgentTrades\<close>
  ends: with \<open>continue\<close>, at the bottom of the body after \<open>indexed++\<close>, or with a throw.\<close>

datatype Outcome = Skipped | Indexed | Threw Error

text \<open>The body of the loop. A throw leaves the store as it is at that moment: what was
  written stays written. The two \<open>calculateUsdValue\<close> calls of the \<open>Promise.all\<close> are
  taken in the order they are written.\<close>

definition indexSwap :: "Env \<Rightarrow> string \<Rightarrow> SwapEvent \<Rightarrow> Store \<Rightarrow> Outcome \<times> Store" where
  "indexSwap env agentId swap st =
     (case findUnique (store_trades st) (swap_txHash swap) of
        Some existing \<Rightarrow> (Skipped, st)
      | None \<Rightarrow>
     (case getTokenInfo (env_chain env) (swap_tokenIn swap) of
        None \<Rightarrow> (Skipped, st)
      | Some tokenInInfo \<Rightarrow>
     (case getTokenInfo (env_chain env) (swap_tokenOut swap) of
        None \<Rightarrow> (Skipped, st)
      | Some tokenOutInfo \<Rightarrow>
          (let r1 = calculateUsdValue (env_fetch env) (env_now env) (store_priceCache st)
                      (swap_tokenIn swap) (swap_amountIn swap) (ti_decimals tokenInInfo);
               valueInUsd = fst r1;
               r2 = calculateUsdValue (env_fetch env) (env_now env) (snd r1)
                      (swap_tokenOut swap) (swap_amountOut swap) (ti_decimals tokenOutInfo);
               valueOutUsd = fst r2;
               profitLossUsd = valueOutUsd - valueInUsd;
               trade = \<lparr>trade_agentId = agentId,
                        trade_txHash = swap_txHash swap,
                        trade_blockNumber = swap_blockNumber swap,
                        trade_timestamp = swap_timestamp swap * 1000,
                        trade_dex = ''UNISWAP_V2'',
                        trade_type = ''SWAP'',
                        trade_tokenInAddress = swap_tokenOut swap,
                        trade_tokenInSymbol = ti_symbol tokenOutInfo,
                        trade_tokenInDecimals = ti_decimals tokenOutInfo,
                        trade_amountIn = swap_amountOut swap,
                        trade_tokenOutAddress = swap_tokenIn swap,
                        trade_tokenOutSymbol = ti_symbol tokenInInfo,
                        trade_tokenOutDecimals = ti_decimals tokenInInfo,
                        trade_amountOut = swap_amountIn swap,
                        trade_valueUsd = valueInUsd,
                        trade_profitLossUsd = profitLossUsd\<rparr>;
               st1 = st\<lparr>store_priceCache := snd r2\<rparr>
           in if env_createFails env (trade_txHash trade) then (Threw DbError, st1)
              else
                (let st2 = st1\<lparr>store_trades := store_trades st1 @ [trade]\<rparr> in
                 case publishEvent env TRADE_INDEXED
                        \<lparr>data_agentId = Some (trade_agentId trade), data_body = TradeBody trade\<rparr> st2 of
                   Inl e \<Rightarrow> (Threw e, st2)
                 | Inr st3 \<Rightarrow> (Indexed, st3))))))"

text \<open>The loop, with its counter \<open>indexed\<close>: a throw ends it at once.\<close>

fun indexSwaps :: "Env \<Rightarrow> string \<Rightarrow> SwapEvent list \<Rightarrow> nat \<Rightarrow> Store \<Rightarrow> (Error + nat) \<times> Store" where
  "indexSwaps env agentId [] indexed st = (Inr indexed, st)"
| "indexSwaps env agentId (swap # swaps) indexed st =
     (case indexSwap env agentId swap st of
        (Skipped, st') \<Rightarrow> indexSwaps env agentId swaps indexed st'
      | (Indexed, st') \<Rightarrow> indexSwaps env agentId swaps (indexed + 1) st'
      | (Threw e, st') \<Rightarrow> (Inl e, st'))"

text \<open>\<open>updateAgentStats\<close>. \<open>prisma.agent.update\<close> throws when no agent has the id.\<close>

definition updateAgentStats :: "Env \<Rightarrow> string \<Rightarrow> Store \<Rightarrow> (Error + unit) \<times> Store" where
  "updateAgentStats env agentId st =
     (let trades = findManyByAgent (store_trades st) agentId in
      if length trades = 0 then (Inr (), st)
      else
        (let totalVolume = foldl (\<lambda>sum t. sum + trade_valueUsd t) 0 trades;
             totalProfit = foldl (\<lambda>sum t. sum + trade_profitLossUsd t) 0 trades;
             profitableTrades = length (filter (\<lambda>t. trade_profitLossUsd t > 0) trades);
             winRate = (of_nat profitableTrades / of_nat (length trades)) * 100
         in case store_agents st agentId of
              None \<Rightarrow> (Inl RecordNotFound, st)
            | Some agent \<Rightarrow>
                (let updatedAgent = agent\<lparr>agent_totalVolumeUsd := totalVolume,
                                          agent_totalProfitUsd := totalProfit,
                                          agent_winRate := winRate,
                                          agent_totalTrades := length trades\<rparr>;
                     st1 = st\<lparr>store_agents := (store_agents st)(agentId \<mapsto> updatedAgent)\<rparr>
                 in case publishEvent env AGENT_STATS_UPDATED
                           \<lparr>data_agentId = Some agentId, data_body = StatsBody updatedAgent\<rparr> st1 of
                      Inl e \<Rightarrow> (Inl e, st1)
                    | Inr st2 \<Rightarrow>
                        (case publishEvent env LEADERBOARD_UPDATED
                                \<lparr>data_agentId = Some agentId, data_body = StatsBody updatedAgent\<rparr> st2 of
                           Inl e \<Rightarrow> (Inl e, st2)
                         | Inr st3 \<Rightarrow> (Inr (), st3)))))"

text \<open>The part of \<open>indexAgentTrades\<close> that follows the choice of the block range: the
  scan, the loop over the candidates, and the statistics update.\<close>

definition indexBlockRange ::
  "Env \<Rightarrow> string \<Rightarrow> Address \<Rightarrow> int \<Rightarrow> int \<Rightarrow> Store \<Rightarrow> (Error + nat) \<times> Store" where
  "indexBlockRange env agentId walletAddress fromBlock currentBlock st =
     (let swaps = getSwapEventsForAddress (env_chain env) walletAddress fromBlock currentBlock in
      case indexSwaps env agentId swaps 0 st of
        (Inl e, st1) \<Rightarrow> (Inl e, st1)
      | (Inr indexed, st1) \<Rightarrow>
          (case updateAgentStats env agentId st1 of
             (Inl e, st2) \<Rightarrow> (Inl e, st2)
           | (Inr u, st2) \<Rightarrow> (Inr indexed, st2)))"

definition scanFromBlock :: "Trade list \<Rightarrow> string \<Rightarrow> int \<Rightarrow> int" where
  "scanFromBlock trades agentId currentBlock =
     (case findFirstDesc trades agentId of
        Some lastTrade \<Rightarrow> trade_blockNumber lastTrade + 1
      | None \<Rightarrow> currentBlock - 10000)"

definition indexAgentTrades :: "Env \<Rightarrow> string \<Rightarrow> Address \<Rightarrow> Store \<Rightarrow> (Error + nat) \<times> Store" where
  "indexAgentTrades env agentId walletAddress st =
     (case getCurrentBlock (env_chain env) of
        None \<Rightarrow> (Inl RpcError, st)
      | Some currentBlock \<Rightarrow>
          (let fromBlock = scanFromBlock (store_trades st) agentId currentBlock
           in indexBlockRange env agentId walletAddress fromBlock currentBlock st))"

section \<open>middleware/rate-limit.ts\<close>

record RateLimitConfig =
  maxRequests :: int
  windowMs :: int
  keyPrefix :: string

text \<open>A Redis sorted set: members with their scores. A member is the string
  \<open>`${now}:${Math.random()}`\<close>, kept as the pair it is built from. A key holds the set
  and the time at which \<open>EXPIRE\<close> lets it lapse.\<close>

type_synonym Member = "int \<times> rat"

type_synonym ZEntry = "int \<times> Member"

record RedisKey =
  key_zset :: "ZEntry list"
  key_expireAt :: int

type_synonym Redis = "string \<rightharpoonup> RedisKey"

definition liveEntries :: "Redis \<Rightarrow> string \<Rightarrow> int \<Rightarrow> ZEntry list" where
  "liveEntries redis key now =
     (case redis key of
        None \<Rightarrow> []
      | Some k \<Rightarrow> if key_expireAt k \<le> now then [] else key_zset k)"

definition zremrangebyscore :: "ZEntry list \<Rightarrow> int \<Rightarrow> int \<Rightarrow> ZEntry list" where
  "zremrangebyscore entries lo hi = filter (\<lambda>e. \<not> (lo \<le> fst e \<and> fst e \<le> hi)) entries"

definition zcard :: "ZEntry list \<Rightarrow> int" where
  "zcard entries = int (length entries)"

definition zadd :: "ZEntry list \<Rightarrow> int \<Rightarrow> Member \<Rightarrow> ZEntry list" where
  "zadd entries score member = filter (\<lambda>e. snd e \<noteq> member) entries @ [(score, member)]"

text \<open>\<open>zrange(key, 0, 0, 'WITHSCORES')\<close>: the score of the entry of lowest score.\<close>

definition oldestScore :: "ZEntry list \<Rightarrow> int option" where
  "oldestScore entries =
     (case entries of
        [] \<Rightarrow> None
      | e # es \<Rightarrow> Some (foldl min (fst e) (map fst es)))"

record Reply =
  reply_status :: "nat option"
  reply_retryAfter :: "int option"
  reply_rateLimitRemaining :: int
  reply_rateLimitReset :: int

text \<open>\<open>checkRateLimit\<close>, given the clock \<open>now\<close> and the sample \<open>rnd\<close> of \<open>Math.random()\<close>.
  A reply without a status lets the request through.\<close>

definition checkRateLimit ::
  "RateLimitConfig \<Rightarrow> string \<Rightarrow> int \<Rightarrow> rat \<Rightarrow> Redis \<Rightarrow> Reply \<times> Redis" where
  "checkRateLimit config key now rnd redis =
     (let windowStart = now - windowMs config;
          pruned = zremrangebyscore (liveEntries redis key now) 0 windowStart;
          currentCount = zcard pruned;
          added = zadd pruned now (now, rnd);
          redis' = redis(key \<mapsto> \<lparr>key_zset = added,
                     key_expireAt = now + 1000 * \<lceil>(of_int (windowMs config) :: rat) / 1000\<rceil>\<rparr>)
      in if currentCount \<ge> maxRequests config
         then
           (let resetTime = (case oldestScore added of
                               Some s \<Rightarrow> s + windowMs config
                             | None \<Rightarrow> now + windowMs config);
                retryAfter = \<lceil>(of_int (resetTime - now) :: rat) / 1000\<rceil>
            in (\<lparr>reply_status = Some 429, reply_retryAfter = Some retryAfter,
                 reply_rateLimitRemaining = 0, reply_rateLimitReset = resetTime\<rparr>, redis'))
         else
           (\<lparr>reply_status = None, reply_retryAfter = None,
              reply_rateLimitRemaining = maxRequests config - currentCount - 1,
              reply_rateLimitReset = now + windowMs config\<rparr>, redis'))"

section \<open>Auxiliary notions and example data\<close>

text \<open>A synthetic trade row, of which only the agent, the transaction hash, the block
  number, the value and the profit vary; and an agent row with no statistics yet.\<close>

definition syntheticTrade :: "string \<Rightarrow> string \<Rightarrow> int \<Rightarrow> rat \<Rightarrow> rat \<Rightarrow> Trade" where
  "syntheticTrade agentId txHash blockNumber valueUsd profitLossUsd =
     \<lparr>trade_agentId = agentId, trade_txHash = txHash, trade_blockNumber = blockNumber,
      trade_timestamp = 0, trade_dex = ''UNISWAP_V2'', trade_type = ''SWAP'',
      trade_tokenInAddress = USDC, trade_tokenInSymbol = ''USDC'', trade_tokenInDecimals = 6,
      trade_amountIn = 0,
      trade_tokenOutAddress = DAI, trade_tokenOutSymbol = ''DAI'', trade_tokenOutDecimals = 18,
      trade_amountOut = 0,
      trade_valueUsd = valueUsd, trade_profitLossUsd = profitLossUsd\<rparr>"

definition newAgent :: "string \<Rightarrow> string \<Rightarrow> Agent" where
  "newAgent agentId username =
     \<lparr>agent_id = agentId, agent_username = username, agent_totalVolumeUsd = 0,
      agent_totalProfitUsd = 0, agent_winRate = 0, agent_totalTrades = 0\<rparr>"

text \<open>The aggregate example of the specification: agent-1 has three trades, with profits
  +50, -20 and +5 USD; a trade of another agent lies among them. The environment
  \<open>quietEnv\<close> has an empty chain and no failing write.\<close>

definition statsExampleStore :: Store where
  "statsExampleStore =
     \<lparr>store_trades = [syntheticTrade ''agent-1'' ''0x01'' 1 100 50,
                      syntheticTrade ''agent-1'' ''0x02'' 2 80 (-20),
                      syntheticTrade ''agent-2'' ''0x03'' 2 7 7,
                      syntheticTrade ''agent-1'' ''0x04'' 3 10 5],
      store_agents = [''agent-1'' \<mapsto> newAgent ''agent-1'' ''alice'',
                      ''agent-2'' \<mapsto> newAgent ''agent-2'' ''bob''],
      store_priceCache = Map.empty,
      store_channel = []\<rparr>"

definition quietChain :: Chain where
  "quietChain =
     \<lparr>chain_logs = [], chain_logsAvailable = True, chain_receipts = (\<lambda>h. None),
      chain_transactions = (\<lambda>h. None), chain_blocks = (\<lambda>n. None),
      chain_erc20 = (\<lambda>a. None), chain_blockNumber = Some 0\<rparr>"

definition quietEnv :: Env where
  "quietEnv =
     \<lparr>env_chain = quietChain, env_now = 0, env_fetch = FetchNotOk,
      env_createFails = (\<lambda>h. False), env_redisDown = False\<rparr>"

text \<open>The reconstruction example of the specification: in one transaction, agent A sends
  100 TokenX to a router, the router forwards them to a pool, and the pool sends A
  40 TokenY.\<close>

definition agentA :: Address where
  "agentA = ''0xa11cE0000000000000000000000000000000Beef''"

definition routerContract :: Address where
  "routerContract = ''0x4752ba5DBc23f44D87826276BF6Fd6b1C372aD24''"

definition poolContract :: Address where
  "poolContract = ''0x9001000000000000000000000000000000000009''"

definition tokenX :: Address where
  "tokenX = ''0x00000000000000000000000000000000000000aa''"

definition tokenY :: Address where
  "tokenY = ''0x00000000000000000000000000000000000000bb''"

definition swapExampleChain :: Chain where
  "swapExampleChain =
     \<lparr>chain_logs =
        [\<lparr>log_address = tokenX, log_transactionHash = ''0xf00d'', log_blockNumber = 18000120,
          log_from = agentA, log_to = routerContract, log_value = 100\<rparr>,
         \<lparr>log_address = tokenX, log_transactionHash = ''0xf00d'', log_blockNumber = 18000120,
          log_from = routerContract, log_to = poolContract, log_value = 100\<rparr>,
         \<lparr>log_address = tokenY, log_transactionHash = ''0xf00d'', log_blockNumber = 18000120,
          log_from = poolContract, log_to = agentA, log_value = 40\<rparr>],
      chain_logsAvailable = True,
      chain_receipts = [''0xf00d'' \<mapsto> \<lparr>receipt_blockNumber = 18000120\<rparr>],
      chain_transactions = [''0xf00d'' \<mapsto> \<lparr>tx_from = agentA, tx_to = Some routerContract\<rparr>],
      chain_blocks = [18000120 \<mapsto> \<lparr>block_timestamp = 1700000000\<rparr>],
      chain_erc20 = [tokenX \<mapsto> (''Token X'', ''TKX'', 18), tokenY \<mapsto> (''Token Y'', ''TKY'', 18)],
      chain_blockNumber = Some 18000200\<rparr>"

text \<open>The notions of the specification, read off the chain's Transfer logs alone: the
  transfers of one transaction, in log order, that lie in the scanned block range and
  have the scanned address as their sender (outbound), respectively as their recipient
  (inbound).\<close>

definition sentTransfers :: "Chain \<Rightarrow> Address \<Rightarrow> int \<Rightarrow> int \<Rightarrow> string \<Rightarrow> TransferLog list" where
  "sentTransfers chain address fromBlock toBlock txHash =
     filter (\<lambda>l. log_transactionHash l = txHash \<and>
                 fromBlock \<le> log_blockNumber l \<and> log_blockNumber l \<le> toBlock \<and>
                 toLowerCase (log_from l) = toLowerCase address) (chain_logs chain)"

definition receivedTransfers :: "Chain \<Rightarrow> Address \<Rightarrow> int \<Rightarrow> int \<Rightarrow> string \<Rightarrow> TransferLog list" where
  "receivedTransfers chain address fromBlock toBlock txHash =
     filter (\<lambda>l. log_transactionHash l = txHash \<and>
                 fromBlock \<le> log_blockNumber l \<and> log_blockNumber l \<le> toBlock \<and>
                 toLowerCase (log_to l) = toLowerCase address) (chain_logs chain)"

text \<open>The chain of the reconstruction example on a node that cannot produce the receipt
  of the example's transaction.\<close>

definition lostReceiptChain :: Chain where
  "lostReceiptChain = swapExampleChain\<lparr>chain_receipts := (\<lambda>h. None)\<rparr>"

text \<open>The two reasons for which the loop body ends with \<open>continue\<close>: a row with the
  candidate's transaction hash exists, or a token-info lookup returned \<open>null\<close>.\<close>

definition candidateSkipped :: "Env \<Rightarrow> SwapEvent \<Rightarrow> Trade list \<Rightarrow> bool" where
  "candidateSkipped env swap trades \<longleftrightarrow>
     findUnique trades (swap_txHash swap) \<noteq> None \<or>
     getTokenInfo (env_chain env) (swap_tokenIn swap) = None \<or>
     getTokenInfo (env_chain env) (swap_tokenOut swap) = None"

text \<open>An environment over the chain of the reconstruction example in which every write
  succeeds; the candidate of the example; a store with two registered agents and no
  trade; and a store in which another agent already holds a row for the example's
  transaction.\<close>

definition swapExampleEnv :: Env where
  "swapExampleEnv =
     \<lparr>env_chain = swapExampleChain, env_now = 1700000100000, env_fetch = FetchNotOk,
      env_createFails = (\<lambda>h. False), env_redisDown = False\<rparr>"

definition swapExampleSwap :: SwapEvent where
  "swapExampleSwap =
     \<lparr>swap_txHash = ''0xf00d'', swap_blockNumber = 18000120, swap_timestamp = 1700000000,
      swap_tokenIn = tokenY, swap_tokenOut = tokenX, swap_amountIn = 40, swap_amountOut = 100,
      swap_from = agentA, swap_to = routerContract\<rparr>"

definition emptyStore :: Store where
  "emptyStore =
     \<lparr>store_trades = [],
      store_agents = [''agent-1'' \<mapsto> newAgent ''agent-1'' ''alice'',
                      ''agent-2'' \<mapsto> newAgent ''agent-2'' ''bob''],
      store_priceCache = Map.empty,
      store_channel = []\<rparr>"

definition crossAgentStore :: Store where
  "crossAgentStore = emptyStore\<lparr>store_trades := [syntheticTrade ''agent-2'' ''0xf00d'' 18000120 0 0]\<rparr>"

text \<open>A chain view is consistent when the receipt of a transaction names the block in
  which the transaction's logs lie: the finalized, linear history that the specification
  lets the scanner assume.\<close>

definition chainConsistent :: "Chain \<Rightarrow> bool" where
  "chainConsistent chain \<longleftrightarrow>
     list_all (\<lambda>l. case chain_receipts chain (log_transactionHash l) of
                     None \<Rightarrow> True
                   | Some receipt \<Rightarrow> receipt_blockNumber receipt = log_blockNumber l)
       (chain_logs chain)"

text \<open>Variations of the example: the store refuses the row of transaction \<open>0xf00d\<close>; the
  Redis publish fails; a second candidate follows in the same batch; a candidate whose
  received token has no readable contract.\<close>

definition failingCreateEnv :: Env where
  "failingCreateEnv = swapExampleEnv\<lparr>env_createFails := (\<lambda>h. h = ''0xf00d'')\<rparr>"

definition redisDownEnv :: Env where
  "redisDownEnv = swapExampleEnv\<lparr>env_redisDown := True\<rparr>"

definition secondSwap :: SwapEvent where
  "secondSwap = swapExampleSwap\<lparr>swap_txHash := ''0xbeef'', swap_blockNumber := 18000121\<rparr>"

definition unreadableTokenSwap :: SwapEvent where
  "unreadableTokenSwap =
     swapExampleSwap\<lparr>swap_txHash := ''0xdead'',
                     swap_tokenIn := ''0x00000000000000000000000000000000000000cc''\<rparr>"



text \<open>The watermark in the words of the specification: the greatest block number among
  the agent's persisted trades, or the fixed lookback when the agent has none.\<close>

definition derivedWatermark :: "Trade list \<Rightarrow> string \<Rightarrow> int \<Rightarrow> int" where
  "derivedWatermark trades agentId lookback =
     (let blocks = map trade_blockNumber (filter (\<lambda>t. trade_agentId t = agentId) trades)
      in if blocks = [] then lookback else Max (set blocks))"

text \<open>A store in which agent-1 already has a trade, in block 18000050, and agent-2 a
  later one.\<close>

definition seenStore :: Store where
  "seenStore =
     emptyStore\<lparr>store_trades := [syntheticTrade ''agent-1'' ''0x0a'' 18000050 0 0,
                                 syntheticTrade ''agent-2'' ''0x0b'' 18000190 0 0]\<rparr>"

text \<open>A profitable swap: in transaction \<open>0xcafe\<close> agent A sends 100 USDC (6 decimals) to a
  pool and receives 150 DAI (18 decimals) from it. Both tokens are priced at 1 USD.\<close>

definition profitExampleChain :: Chain where
  "profitExampleChain =
     \<lparr>chain_logs =
        [\<lparr>log_address = USDC, log_transactionHash = ''0xcafe'', log_blockNumber = 18000150,
          log_from = agentA, log_to = poolContract, log_value = 100000000\<rparr>,
         \<lparr>log_address = DAI, log_transactionHash = ''0xcafe'', log_blockNumber = 18000150,
          log_from = poolContract, log_to = agentA, log_value = 150000000000000000000\<rparr>],
      chain_logsAvailable = True,
      chain_receipts = [''0xcafe'' \<mapsto> \<lparr>receipt_blockNumber = 18000150\<rparr>],
      chain_transactions = [''0xcafe'' \<mapsto> \<lparr>tx_from = agentA, tx_to = Some poolContract\<rparr>],
      chain_blocks = [18000150 \<mapsto> \<lparr>block_timestamp = 1700000000\<rparr>],
      chain_erc20 = [USDC \<mapsto> (''USD Coin'', ''USDC'', 6), DAI \<mapsto> (''Dai Stablecoin'', ''DAI'', 18)],
      chain_blockNumber = Some 18000200\<rparr>"

definition profitExampleEnv :: Env where
  "profitExampleEnv =
     \<lparr>env_chain = profitExampleChain, env_now = 1700000100000, env_fetch = FetchNotOk,
      env_createFails = (\<lambda>h. False), env_redisDown = False\<rparr>"

text \<open>The USD value of a leg of a persisted row, as \<open>calculateUsdValue\<close> computes it.\<close>

definition legValueUsd :: "Env \<Rightarrow> PriceCache \<Rightarrow> Address \<Rightarrow> int \<Rightarrow> nat \<Rightarrow> rat" where
  "legValueUsd env cache tokenAddress amount decimals =
     fst (calculateUsdValue (env_fetch env) (env_now env) cache tokenAddress amount decimals)"



text \<open>The rate-limit test of the specification: at most 2 requests in a window of
  length 2.\<close>

definition twoPerTwo :: RateLimitConfig where
  "twoPerTwo = \<lparr>maxRequests = 2, windowMs = 2, keyPrefix = ''ratelimit:test''\<rparr>"

definition testKey :: string where
  "testKey = ''ratelimit:test:agent:agent-1''"

text \<open>The store after requests at times 10 and 11, and after a third one at time 11.\<close>

definition afterTwo :: Redis where
  "afterTwo =
     snd (checkRateLimit twoPerTwo testKey 11 (2/10)
       (snd (checkRateLimit twoPerTwo testKey 10 (1/10) Map.empty)))"

definition afterThree :: Redis where
  "afterThree = snd (checkRateLimit twoPerTwo testKey 11 (3/10) afterTwo)"

section \<open>Properties of the Price Resolver\<close>

lemma weth_not_stable:
  "toLowerCase WETH \<noteq> toLowerCase USDC"
  "toLowerCase WETH \<noteq> toLowerCase DAI"
  "toLowerCase WETH \<noteq> toLowerCase USDT"
  by (simp_all add: toLowerCase_def lowerChar_def WETH_def USDC_def DAI_def USDT_def)

lemma resolvedPrice_stable: "isStablecoin tokenAddress \<Longrightarrow> resolvedPrice fetch tokenAddress = 1"
  using weth_not_stable
  by (auto simp: resolvedPrice_def getPriceFromUniswap_def isStablecoin_def)

lemma resolvedPrice_unknown:
  "toLowerCase tokenAddress \<noteq> toLowerCase WETH \<Longrightarrow> \<not> isStablecoin tokenAddress \<Longrightarrow>
   resolvedPrice fetch tokenAddress = 0"
  by (simp add: resolvedPrice_def getPriceFromUniswap_def getFallbackPrice_def isStablecoin_def)

lemma getTokenPriceUsd_cases:
  assumes "getTokenPriceUsd fetch now cache tokenAddress = (p, c')"
  shows "(c' = cache \<and> (p = resolvedPrice fetch tokenAddress \<or>
            (\<exists>e. cache (toLowerCase tokenAddress) = Some e \<and> p = cache_price e))) \<or>
         (c' = cache(toLowerCase tokenAddress \<mapsto> \<lparr>cache_price = p, cache_timestamp = now\<rparr>) \<and>
          p > 0 \<and> p = resolvedPrice fetch tokenAddress)"
  using assms
  unfolding getTokenPriceUsd_def Let_def resolvedPrice_def
  by (auto split: option.splits if_splits)

lemma getTokenPriceUsd_sound:
  assumes "cacheSound cache"
  shows "cacheSound (snd (getTokenPriceUsd fetch now cache tokenAddress))"
proof -
  obtain p c' where r: "getTokenPriceUsd fetch now cache tokenAddress = (p, c')"
    by (cases "getTokenPriceUsd fetch now cache tokenAddress")
  from getTokenPriceUsd_cases [OF r] show ?thesis
  proof
    assume "c' = cache \<and> (p = resolvedPrice fetch tokenAddress \<or>
            (\<exists>e. cache (toLowerCase tokenAddress) = Some e \<and> p = cache_price e))"
    with assms r show ?thesis by simp
  next
    assume u: "c' = cache(toLowerCase tokenAddress \<mapsto> \<lparr>cache_price = p, cache_timestamp = now\<rparr>) \<and>
          p > 0 \<and> p = resolvedPrice fetch tokenAddress"
    have known: "toLowerCase tokenAddress = toLowerCase WETH \<or> isStablecoin tokenAddress"
      using u resolvedPrice_unknown [of tokenAddress fetch] by auto
    have one: "toLowerCase tokenAddress \<noteq> toLowerCase WETH \<longrightarrow> p = 1"
      using u known resolvedPrice_stable [of tokenAddress fetch] by auto
    have "cacheSound c'"
      unfolding cacheSound_def
    proof (intro allI impI)
      fix k e assume ke: "c' k = Some e"
      show "(k = toLowerCase WETH \<or> k = toLowerCase USDC \<or> k = toLowerCase DAI \<or> k = toLowerCase USDT) \<and>
        (k \<noteq> toLowerCase WETH \<longrightarrow> cache_price e = 1)"
      proof (cases "k = toLowerCase tokenAddress")
        case True
        with ke u have "cache_price e = p" by auto
        with True known one show ?thesis by (auto simp: isStablecoin_def)
      next
        case False
        with ke u have "cache k = Some e" by auto
        with assms show ?thesis unfolding cacheSound_def by blast
      qed
    qed
    with r show ?thesis by simp
  qed
qed

lemma reachableCache_sound: "reachableCache cache \<Longrightarrow> cacheSound cache"
proof (induction rule: reachableCache.induct)
  case cache_init
  show ?case by (simp add: cacheSound_def)
next
  case (cache_clear cache)
  show ?case by (simp add: cacheSound_def clearCache_def)
next
  case (cache_resolve cache fetch now tokenAddress)
  then show ?case by (simp add: getTokenPriceUsd_sound)
qed

lemma stablecoin_price_sound:
  assumes "cacheSound cache" and "isStablecoin tokenAddress"
  shows "fst (getTokenPriceUsd fetch now cache tokenAddress) = 1"
proof -
  from assms(2) have nw: "toLowerCase tokenAddress \<noteq> toLowerCase WETH"
    using weth_not_stable by (auto simp: isStablecoin_def)
  show ?thesis
  proof (cases "cache (toLowerCase tokenAddress)")
    case None
    with assms(2) nw show ?thesis
      by (simp add: getTokenPriceUsd_def getPriceFromUniswap_def Let_def)
  next
    case (Some e)
    with assms(1) nw have "cache_price e = 1"
      by (auto simp: cacheSound_def)
    with Some assms(2) nw show ?thesis
      by (simp add: getTokenPriceUsd_def getPriceFromUniswap_def Let_def)
  qed
qed

lemma unknown_price_sound:
  assumes "cacheSound cache"
    and "toLowerCase tokenAddress \<noteq> toLowerCase WETH"
    and "\<not> isStablecoin tokenAddress"
  shows "getTokenPriceUsd fetch now cache tokenAddress = (0, cache)"
proof -
  from assms have "cache (toLowerCase tokenAddress) = None"
    by (cases "cache (toLowerCase tokenAddress)") (auto simp: cacheSound_def isStablecoin_def)
  with assms(2,3) show ?thesis
    by (simp add: getTokenPriceUsd_def getPriceFromUniswap_def getFallbackPrice_def
        isStablecoin_def Let_def)
qed

section \<open>Price Resolver: stablecoins and unpriced tokens\<close>

text \<open>
  C6. In every state the private price cache can be in, resolving a stablecoin address
  (USDC, DAI or USDT, in any letter case) returns exactly 1, whatever the clock and the
  spot-price feed do; and resolving an address that is neither a stablecoin nor WETH
  returns 0 and leaves the cache as it was. The resolver is a total function: it has no
  error result, because the source catches every exception on this path.
\<close>

theorem price_resolver_stable_and_unpriced:
  assumes "reachableCache cache"
  shows "(isStablecoin tokenAddress \<longrightarrow>
            fst (getTokenPriceUsd fetch now cache tokenAddress) = 1) \<and>
         (toLowerCase tokenAddress \<noteq> toLowerCase WETH \<and> \<not> isStablecoin tokenAddress \<longrightarrow>
            getTokenPriceUsd fetch now cache tokenAddress = (0, cache))"
  using reachableCache_sound [OF assms] stablecoin_price_sound unknown_price_sound
  by blast

theorem price_resolver_witness:
  "fst (getTokenPriceUsd FetchThrows 1000
          (snd (getTokenPriceUsd FetchNotOk 0 Map.empty USDC)) USDC) = 1 \<and>
   getTokenPriceUsd FetchThrows 1000
          (snd (getTokenPriceUsd FetchNotOk 0 Map.empty USDC)) ''0xABCDEF'' =
     (0, snd (getTokenPriceUsd FetchNotOk 0 Map.empty USDC))"
proof -
  have r: "reachableCache (snd (getTokenPriceUsd FetchNotOk 0 Map.empty USDC))"
    by (rule cache_resolve [OF cache_init])
  have s: "isStablecoin USDC" by (simp add: isStablecoin_def)
  have u: "toLowerCase ''0xABCDEF'' \<noteq> toLowerCase WETH \<and> \<not> isStablecoin ''0xABCDEF''"
    by (simp add: isStablecoin_def toLowerCase_def WETH_def USDC_def DAI_def USDT_def)
  from price_resolver_stable_and_unpriced [OF r, of USDC FetchThrows 1000] s
  have a: "fst (getTokenPriceUsd FetchThrows 1000
          (snd (getTokenPriceUsd FetchNotOk 0 Map.empty USDC)) USDC) = 1" by blast
  from price_resolver_stable_and_unpriced [OF r, of "''0xABCDEF''" FetchThrows 1000] u
  have b: "getTokenPriceUsd FetchThrows 1000
          (snd (getTokenPriceUsd FetchNotOk 0 Map.empty USDC)) ''0xABCDEF'' =
     (0, snd (getTokenPriceUsd FetchNotOk 0 Map.empty USDC))" by blast
  from a b show ?thesis by blast
qed

section \<open>Stats Aggregator\<close>

lemma foldl_add_sum_list:
  "foldl (\<lambda>sum t. sum + f t) a xs = (a :: rat) + sum_list (map f xs)"
  by (induction xs arbitrary: a) (simp_all add: add.assoc)

lemma updateAgentStats_agents:
  "store_agents (snd (updateAgentStats env agentId st)) =
     (if findManyByAgent (store_trades st) agentId = [] then store_agents st
      else case store_agents st agentId of
             None \<Rightarrow> store_agents st
           | Some agent \<Rightarrow>
               (store_agents st)(agentId \<mapsto>
                  agent\<lparr>agent_totalVolumeUsd :=
                          sum_list (map trade_valueUsd (findManyByAgent (store_trades st) agentId)),
                        agent_totalProfitUsd :=
                          sum_list (map trade_profitLossUsd (findManyByAgent (store_trades st) agentId)),
                        agent_winRate :=
                          of_nat (length (filter (\<lambda>t. trade_profitLossUsd t > 0)
                                     (findManyByAgent (store_trades st) agentId))) /
                          of_nat (length (findManyByAgent (store_trades st) agentId)) * 100,
                        agent_totalTrades := length (findManyByAgent (store_trades st) agentId)\<rparr>))"
  by (simp add: updateAgentStats_def findManyByAgent_def Let_def publishEvent_def foldl_add_sum_list
      split: option.splits)

lemma updateAgentStats_trades:
  "store_trades (snd (updateAgentStats env agentId st)) = store_trades st"
  by (simp add: updateAgentStats_def Let_def publishEvent_def split: option.splits)

text \<open>
  C3. When the agent has at least one trade (and its row exists), \<open>updateAgentStats\<close>
  writes: \<open>totalVolumeUsd\<close> the sum of \<open>valueUsd\<close> over the agent's trades,
  \<open>totalProfitUsd\<close> the sum of \<open>profitLossUsd\<close>, \<open>totalTrades\<close> their number, and
  \<open>winRate\<close> 100 times the number of trades with positive \<open>profitLossUsd\<close> divided by
  their number. The write stands whether or not the two publishes that follow succeed.
  For the profits \<open>[50, -20, 5]\<close> this gives a total profit of 35 and a win rate of 200/3.
\<close>

theorem stats_aggregator_correct:
  assumes "findManyByAgent (store_trades st) agentId \<noteq> []"
    and "store_agents st agentId = Some agent"
  shows "store_agents (snd (updateAgentStats env agentId st)) agentId =
           Some (agent\<lparr>agent_totalVolumeUsd :=
                          sum_list (map trade_valueUsd (findManyByAgent (store_trades st) agentId)),
                        agent_totalProfitUsd :=
                          sum_list (map trade_profitLossUsd (findManyByAgent (store_trades st) agentId)),
                        agent_winRate :=
                          100 * of_nat (length (filter (\<lambda>t. trade_profitLossUsd t > 0)
                                     (findManyByAgent (store_trades st) agentId))) /
                          of_nat (length (findManyByAgent (store_trades st) agentId)),
                        agent_totalTrades := length (findManyByAgent (store_trades st) agentId)\<rparr>)"
  using assms by (simp add: updateAgentStats_agents)

theorem stats_aggregator_witness:
  "map trade_profitLossUsd (findManyByAgent (store_trades statsExampleStore) ''agent-1'') = [50, -20, 5] \<and>
   store_agents (snd (updateAgentStats quietEnv ''agent-1'' statsExampleStore)) ''agent-1'' =
     Some \<lparr>agent_id = ''agent-1'', agent_username = ''alice'', agent_totalVolumeUsd = 190,
           agent_totalProfitUsd = 35, agent_winRate = 200 / 3, agent_totalTrades = 3\<rparr>"
proof -
  have ts: "findManyByAgent (store_trades statsExampleStore) ''agent-1'' =
              [syntheticTrade ''agent-1'' ''0x01'' 1 100 50,
               syntheticTrade ''agent-1'' ''0x02'' 2 80 (-20),
               syntheticTrade ''agent-1'' ''0x04'' 3 10 5]"
    by (simp add: findManyByAgent_def statsExampleStore_def syntheticTrade_def)
  have ne: "findManyByAgent (store_trades statsExampleStore) ''agent-1'' \<noteq> []"
    by (simp add: ts)
  have ag: "store_agents statsExampleStore ''agent-1'' = Some (newAgent ''agent-1'' ''alice'')"
    by (simp add: statsExampleStore_def)
  show ?thesis
    using stats_aggregator_correct [OF ne ag, of quietEnv]
    by (simp add: ts syntheticTrade_def newAgent_def)
qed

section \<open>Swap Reconstructor\<close>

lemma pushTransfer_keys:
  "map fst (pushTransfer t g) =
     (if log_transactionHash t \<in> fst ` set g then map fst g
      else map fst g @ [log_transactionHash t])"
proof (induction g)
  case Nil
  show ?case by simp
next
  case (Cons p g)
  obtain h ts where p: "p = (h, ts)" by (cases p)
  show ?case
  proof (cases "h = log_transactionHash t")
    case True
    with p show ?thesis by simp
  next
    case False
    with p Cons show ?thesis by (simp split: if_splits)
  qed
qed

lemma pushTransfer_map_of:
  "map_of (pushTransfer t g) h =
     (if h = log_transactionHash t
      then Some ((case map_of g h of None \<Rightarrow> [] | Some ts \<Rightarrow> ts) @ [t])
      else map_of g h)"
  by (induction g) auto

lemma groupByTx_Nil: "groupByTx [] = []"
  by (simp add: groupByTx_def)

lemma groupByTx_snoc: "groupByTx (ts @ [t]) = pushTransfer t (groupByTx ts)"
  by (simp add: groupByTx_def)

lemma groupByTx_distinct: "distinct (map fst (groupByTx ts))"
  by (induction ts rule: rev_induct) (auto simp: groupByTx_Nil groupByTx_snoc pushTransfer_keys)

lemma groupByTx_map_of:
  "map_of (groupByTx ts) h =
     (if filter (\<lambda>t. log_transactionHash t = h) ts = [] then None
      else Some (filter (\<lambda>t. log_transactionHash t = h) ts))"
  by (induction ts rule: rev_induct)
     (auto simp: groupByTx_Nil groupByTx_snoc pushTransfer_map_of)

lemma filter_key_absent: "h \<notin> fst ` set g \<Longrightarrow> filter (\<lambda>p. fst p = h) g = []"
  by (induction g) auto

lemma filter_key_distinct:
  "distinct (map fst g) \<Longrightarrow>
   filter (\<lambda>p. fst p = h) g = (case map_of g h of None \<Rightarrow> [] | Some v \<Rightarrow> [(h, v)])"
proof (induction g)
  case Nil
  show ?case by simp
next
  case (Cons p g)
  show ?case
  proof (cases "fst p = h")
    case True
    with Cons.prems have "h \<notin> fst ` set g" by auto
    with True show ?thesis by (cases p) (simp add: filter_key_absent)
  next
    case False
    with Cons show ?thesis by (cases p) simp
  qed
qed

lemma parseGroup_txHash: "parseGroup chain address g = Some s \<Longrightarrow> swap_txHash s = fst g"
  by (auto simp: parseGroup_def parseSwapFromTransfers_def Let_def split: if_splits option.splits)

lemma filter_map_filter_key:
  assumes "\<And>x s. f x = Some s \<Longrightarrow> swap_txHash s = fst x"
  shows "filter (\<lambda>s. swap_txHash s = h) (List.map_filter f xs) =
         List.map_filter f (filter (\<lambda>x. fst x = h) xs)"
proof (induction xs)
  case Nil
  show ?case by (simp add: List.map_filter_simps)
next
  case (Cons x xs)
  then show ?case
    by (cases "f x") (auto simp: List.map_filter_simps dest: assms)
qed

lemma swapExample_lower:
  "toLowerCase agentA = ''0xa11ce0000000000000000000000000000000beef''"
  "toLowerCase routerContract = ''0x4752ba5dbc23f44d87826276bf6fd6b1c372ad24''"
  "toLowerCase poolContract = ''0x9001000000000000000000000000000000000009''"
  by (simp_all add: toLowerCase_def lowerChar_def agentA_def routerContract_def poolContract_def)

lemma candidates_of_tx:
  assumes "getLogs chain (FromIs address) fromBlock toBlock = Some transfersOut"
    and "getLogs chain (ToIs address) fromBlock toBlock = Some transfersIn"
  shows "filter (\<lambda>s. swap_txHash s = h) (getSwapEventsForAddress chain address fromBlock toBlock) =
         (case parseGroup chain address
                 (h, filter (\<lambda>t. log_transactionHash t = h) (transfersOut @ transfersIn)) of
            None \<Rightarrow> []
          | Some s \<Rightarrow> [s])"
proof -
  let ?groups = "groupByTx (transfersOut @ transfersIn)"
  have "filter (\<lambda>s. swap_txHash s = h) (getSwapEventsForAddress chain address fromBlock toBlock) =
        sort_key swap_blockNumber
          (List.map_filter (parseGroup chain address) (filter (\<lambda>x. fst x = h) ?groups))"
    using assms
    by (simp add: getSwapEventsForAddress_def Let_def filter_sort
        filter_map_filter_key [OF parseGroup_txHash])
  also have "filter (\<lambda>x. fst x = h) ?groups =
        (case map_of ?groups h of None \<Rightarrow> [] | Some v \<Rightarrow> [(h, v)])"
    by (rule filter_key_distinct [OF groupByTx_distinct])
  finally show ?thesis
    by (auto simp: groupByTx_map_of List.map_filter_simps parseGroup_def
        split: option.splits if_splits)
qed

lemma group_of_tx:
  assumes "getLogs chain (FromIs address) fromBlock toBlock = Some transfersOut"
    and "getLogs chain (ToIs address) fromBlock toBlock = Some transfersIn"
  shows "filter (\<lambda>t. log_transactionHash t = h) (transfersOut @ transfersIn) =
         sentTransfers chain address fromBlock toBlock h @
         receivedTransfers chain address fromBlock toBlock h"
proof -
  have "filter (\<lambda>t. log_transactionHash t = h) transfersOut =
        sentTransfers chain address fromBlock toBlock h"
    using assms(1)
    by (auto simp: getLogs_def sentTransfers_def split: if_splits intro: filter_cong)
  moreover have "filter (\<lambda>t. log_transactionHash t = h) transfersIn =
        receivedTransfers chain address fromBlock toBlock h"
    using assms(2)
    by (auto simp: getLogs_def receivedTransfers_def split: if_splits intro: filter_cong)
  ultimately show ?thesis by simp
qed

lemma outbound_of_group:
  "outboundOf address (sentTransfers chain address fromBlock toBlock h @
                       receivedTransfers chain address fromBlock toBlock h) =
   sentTransfers chain address fromBlock toBlock h @
   outboundOf address (receivedTransfers chain address fromBlock toBlock h)"
  "set (outboundOf address (receivedTransfers chain address fromBlock toBlock h)) \<subseteq>
   set (sentTransfers chain address fromBlock toBlock h)"
  by (auto simp: outboundOf_def sentTransfers_def receivedTransfers_def)

lemma inbound_of_group:
  "inboundOf address (sentTransfers chain address fromBlock toBlock h @
                      receivedTransfers chain address fromBlock toBlock h) =
   inboundOf address (sentTransfers chain address fromBlock toBlock h) @
   receivedTransfers chain address fromBlock toBlock h"
  "set (inboundOf address (sentTransfers chain address fromBlock toBlock h)) \<subseteq>
   set (receivedTransfers chain address fromBlock toBlock h)"
  by (auto simp: inboundOf_def sentTransfers_def receivedTransfers_def)

lemma legs_of_group:
  fixes sent received :: "TransferLog list"
  assumes "set xs \<subseteq> set sent" and "set ys \<subseteq> set received"
  shows "sent @ xs = [] \<longleftrightarrow> sent = []"
    and "ys @ received = [] \<longleftrightarrow> received = []"
    and "sent \<noteq> [] \<Longrightarrow> hd (sent @ xs) = hd sent"
    and "received \<noteq> [] \<Longrightarrow> last (ys @ received) = last received"
  using assms by auto

text \<open>
  C4, as the specification states it, fails: a transaction with two grouped transfers,
  one sent by the scanned address and one received by it, yields no candidate when the
  node cannot produce its receipt. \<open>parseSwapFromTransfers\<close> catches the throw and
  returns \<open>null\<close>.
\<close>

theorem two_sided_tx_without_receipt_yields_nothing:
  "map log_value (sentTransfers lostReceiptChain agentA 18000100 18000200 ''0xf00d'') = [100] \<and>
   map log_value (receivedTransfers lostReceiptChain agentA 18000100 18000200 ''0xf00d'') = [40] \<and>
   getSwapEventsForAddress lostReceiptChain agentA 18000100 18000200 = []"
  by (simp add: sentTransfers_def receivedTransfers_def lostReceiptChain_def swapExampleChain_def
      getSwapEventsForAddress_def getLogs_def groupByTx_def parseGroup_def
      parseSwapFromTransfers_def List.map_filter_simps swapExample_lower)

text \<open>
  C4, amended. For every scanned address, block range and transaction, the candidates
  that \<open>getSwapEventsForAddress\<close> returns for the transaction are: exactly one, when the
  log queries answer, the transfers grouped under the transaction (those the address
  sent followed by those it received) number at least 2 with at least one sent and at
  least one received, and the receipt, transaction and block lookups answer; none
  otherwise, so none for a one-sided transaction and none when a lookup throws. The one
  candidate has the token and amount of the first transfer sent by the address as its
  sent leg (\<open>tokenOut\<close>, \<open>amountOut\<close>) and those of the last transfer received by the
  address as its received leg (\<open>tokenIn\<close>, \<open>amountIn\<close>).
\<close>

theorem swap_reconstructor_candidates_of_tx:
  "filter (\<lambda>s. swap_txHash s = txHash)
     (getSwapEventsForAddress chain address fromBlock toBlock) =
   (let sent = sentTransfers chain address fromBlock toBlock txHash;
        received = receivedTransfers chain address fromBlock toBlock txHash
    in if chain_logsAvailable chain \<and> length sent + length received \<ge> 2 \<and>
          sent \<noteq> [] \<and> received \<noteq> []
       then (case chain_receipts chain txHash of
               None \<Rightarrow> []
             | Some receipt \<Rightarrow>
            (case chain_transactions chain txHash of
               None \<Rightarrow> []
             | Some tx \<Rightarrow>
            (case chain_blocks chain (receipt_blockNumber receipt) of
               None \<Rightarrow> []
             | Some block \<Rightarrow>
                 [\<lparr>swap_txHash = txHash,
                   swap_blockNumber = receipt_blockNumber receipt,
                   swap_timestamp = block_timestamp block,
                   swap_tokenIn = log_address (last received),
                   swap_tokenOut = log_address (hd sent),
                   swap_amountIn = log_value (last received),
                   swap_amountOut = log_value (hd sent),
                   swap_from = tx_from tx,
                   swap_to = (case tx_to tx of
                                None \<Rightarrow> ZERO_ADDRESS
                              | Some a \<Rightarrow> if a = [] then ZERO_ADDRESS else a)\<rparr>])))
       else [])"
proof (cases "chain_logsAvailable chain")
  case False
  then show ?thesis
    by (simp add: getSwapEventsForAddress_def getLogs_def Let_def)
next
  case True
  then obtain transfersOut transfersIn where
    logs: "getLogs chain (FromIs address) fromBlock toBlock = Some transfersOut"
          "getLogs chain (ToIs address) fromBlock toBlock = Some transfersIn"
    by (simp add: getLogs_def)
  let ?sent = "sentTransfers chain address fromBlock toBlock txHash"
  let ?received = "receivedTransfers chain address fromBlock toBlock txHash"
  let ?xs = "outboundOf address ?received"
  let ?ys = "inboundOf address ?sent"
  have sub1: "set ?xs \<subseteq> set ?sent" by (rule outbound_of_group(2))
  have sub2: "set ?ys \<subseteq> set ?received" by (rule inbound_of_group(2))
  note legs = legs_of_group [OF sub1 sub2]
  have cand: "filter (\<lambda>s. swap_txHash s = txHash)
                (getSwapEventsForAddress chain address fromBlock toBlock) =
              (case parseGroup chain address (txHash, ?sent @ ?received) of
                 None \<Rightarrow> []
               | Some s \<Rightarrow> [s])"
    by (simp only: candidates_of_tx [OF logs] group_of_tx [OF logs])
  show ?thesis
  proof (cases "?sent \<noteq> [] \<and> ?received \<noteq> []")
    case False
    then have "parseGroup chain address (txHash, ?sent @ ?received) = None"
      using legs(1,2)
      by (auto simp: parseGroup_def parseSwapFromTransfers_def Let_def outbound_of_group(1)
          inbound_of_group(1) split: option.splits)
    with False cand show ?thesis by (auto simp: Let_def)
  next
    case both: True
    then have two: "length ?sent + length ?received \<ge> 2"
      by (cases ?sent; cases ?received) simp_all
    have "parseGroup chain address (txHash, ?sent @ ?received) =
          parseSwapFromTransfers chain txHash (?sent @ ?received) address"
      using two by (simp add: parseGroup_def)
    with both two True cand legs show ?thesis
      by (simp add: parseSwapFromTransfers_def Let_def outbound_of_group(1)
          inbound_of_group(1) split: option.splits)
  qed
qed

lemma swapExample_transfers:
  "sentTransfers swapExampleChain agentA 18000100 18000200 ''0xf00d'' =
     [\<lparr>log_address = tokenX, log_transactionHash = ''0xf00d'', log_blockNumber = 18000120,
       log_from = agentA, log_to = routerContract, log_value = 100\<rparr>]"
  "receivedTransfers swapExampleChain agentA 18000100 18000200 ''0xf00d'' =
     [\<lparr>log_address = tokenY, log_transactionHash = ''0xf00d'', log_blockNumber = 18000120,
       log_from = poolContract, log_to = agentA, log_value = 40\<rparr>]"
  by (simp_all add: sentTransfers_def receivedTransfers_def swapExampleChain_def
      swapExample_lower)

theorem swap_reconstructor_witness:
  "filter (\<lambda>s. swap_txHash s = ''0xf00d'')
     (getSwapEventsForAddress swapExampleChain agentA 18000100 18000200) =
     [\<lparr>swap_txHash = ''0xf00d'', swap_blockNumber = 18000120, swap_timestamp = 1700000000,
       swap_tokenIn = tokenY, swap_tokenOut = tokenX, swap_amountIn = 40, swap_amountOut = 100,
       swap_from = agentA, swap_to = routerContract\<rparr>] \<and>
   length (getSwapEventsForAddress swapExampleChain agentA 18000100 18000200) = 1"
proof -
  have one: "length (getSwapEventsForAddress swapExampleChain agentA 18000100 18000200) = 1"
    by (simp add: getSwapEventsForAddress_def getLogs_def swapExampleChain_def groupByTx_def
        parseGroup_def parseSwapFromTransfers_def outboundOf_def inboundOf_def Let_def
        List.map_filter_simps swapExample_lower)
  have r: "routerContract \<noteq> []" by (simp add: routerContract_def)
  have c: "chain_logsAvailable swapExampleChain"
    "chain_receipts swapExampleChain ''0xf00d'' = Some \<lparr>receipt_blockNumber = 18000120\<rparr>"
    "chain_transactions swapExampleChain ''0xf00d'' =
       Some \<lparr>tx_from = agentA, tx_to = Some routerContract\<rparr>"
    "chain_blocks swapExampleChain 18000120 = Some \<lparr>block_timestamp = 1700000000\<rparr>"
    by (simp_all add: swapExampleChain_def)
  show ?thesis
    using swap_reconstructor_candidates_of_tx [of "''0xf00d''" swapExampleChain agentA 18000100 18000200]
      one r
    by (simp add: swapExample_transfers c)
qed

section \<open>Trade Indexer: the loop over the candidates\<close>

lemma findUnique_None_iff:
  "findUnique trades h = None \<longleftrightarrow> h \<notin> trade_txHash ` set trades"
  by (auto simp: findUnique_def find_None_iff)


lemma indexSwap_Skipped_iff:
  "fst (indexSwap env agentId swap st) = Skipped \<longleftrightarrow> candidateSkipped env swap (store_trades st)"
  by (auto simp: indexSwap_def candidateSkipped_def Let_def publishEvent_def
      split: option.splits)

lemma indexSwap_Skipped_store:
  "fst (indexSwap env agentId swap st) = Skipped \<Longrightarrow> snd (indexSwap env agentId swap st) = st"
  by (auto simp: indexSwap_def Let_def publishEvent_def split: option.splits if_splits)

lemma indexSwap_trades:
  "store_trades (snd (indexSwap env agentId swap st)) = store_trades st \<or>
   (findUnique (store_trades st) (swap_txHash swap) = None \<and>
    (\<exists>t. store_trades (snd (indexSwap env agentId swap st)) = store_trades st @ [t] \<and>
         trade_agentId t = agentId \<and> trade_txHash t = swap_txHash swap \<and>
         trade_blockNumber t = swap_blockNumber swap))"
  by (simp add: indexSwap_def Let_def publishEvent_def split: option.splits)


lemma indexSwaps_invariant:
  assumes "P (store_trades st)"
    and step: "\<And>ts t. P ts \<Longrightarrow> findUnique ts (trade_txHash t) = None \<Longrightarrow> P (ts @ [t])"
  shows "P (store_trades (snd (indexSwaps env agentId swaps indexed st)))"
  using assms(1)
proof (induction swaps arbitrary: indexed st)
  case Nil
  then show ?case by simp
next
  case (Cons swap swaps)
  obtain out st' where r: "indexSwap env agentId swap st = (out, st')"
    by (cases "indexSwap env agentId swap st")
  have P': "P (store_trades st')"
    using indexSwap_trades [of env agentId swap st] r Cons.prems step by auto
  show ?case
  proof (cases out)
    case Skipped
    with r Cons.IH [OF P'] show ?thesis by simp
  next
    case Indexed
    with r Cons.IH [OF P'] show ?thesis by simp
  next
    case (Threw e)
    with r P' show ?thesis by simp
  qed
qed

lemma indexSwaps_grows:
  "\<exists>new. store_trades (snd (indexSwaps env agentId swaps indexed st)) = store_trades st @ new \<and>
         (\<forall>t\<in>set new. trade_agentId t = agentId \<and>
            (\<exists>s\<in>set swaps. trade_blockNumber t = swap_blockNumber s))"
proof (induction swaps arbitrary: indexed st)
  case Nil
  show ?case by simp
next
  case (Cons swap swaps)
  obtain out st' where r: "indexSwap env agentId swap st = (out, st')"
    by (cases "indexSwap env agentId swap st")
  from indexSwap_trades [of env agentId swap st] r
  obtain new1 where n1: "store_trades st' = store_trades st @ new1"
    "\<forall>t\<in>set new1. trade_agentId t = agentId \<and> trade_blockNumber t = swap_blockNumber swap"
    by fastforce
  show ?case
  proof (cases out)
    case (Threw e)
    with r n1 show ?thesis by auto
  next
    case Skipped
    from Cons.IH [of indexed st'] obtain new2 where
      "store_trades (snd (indexSwaps env agentId swaps indexed st')) = store_trades st' @ new2"
      "\<forall>t\<in>set new2. trade_agentId t = agentId \<and>
            (\<exists>s\<in>set swaps. trade_blockNumber t = swap_blockNumber s)" by blast
    with n1 Skipped r show ?thesis
      by (intro exI [of _ "new1 @ new2"]) auto
  next
    case Indexed
    from Cons.IH [of "indexed + 1" st'] obtain new2 where
      "store_trades (snd (indexSwaps env agentId swaps (indexed + 1) st')) = store_trades st' @ new2"
      "\<forall>t\<in>set new2. trade_agentId t = agentId \<and>
            (\<exists>s\<in>set swaps. trade_blockNumber t = swap_blockNumber s)" by blast
    with n1 Indexed r show ?thesis
      by (intro exI [of _ "new1 @ new2"]) auto
  qed
qed




lemma indexBlockRange_trades:
  "store_trades (snd (indexBlockRange env agentId walletAddress fromBlock currentBlock st)) =
   store_trades (snd (indexSwaps env agentId
      (getSwapEventsForAddress (env_chain env) walletAddress fromBlock currentBlock) 0 st))"
proof -
  let ?swaps = "getSwapEventsForAddress (env_chain env) walletAddress fromBlock currentBlock"
  obtain r st1 where a: "indexSwaps env agentId ?swaps 0 st = (r, st1)"
    by (cases "indexSwaps env agentId ?swaps 0 st")
  obtain u st2 where b: "updateAgentStats env agentId st1 = (u, st2)"
    by (cases "updateAgentStats env agentId st1")
  have c: "store_trades st2 = store_trades st1"
    using updateAgentStats_trades [of env agentId st1] b by simp
  show ?thesis
    using a b c by (cases r; cases u) (simp_all add: indexBlockRange_def)
qed


section \<open>Trade Indexer: uniqueness of the transaction hash\<close>

lemma distinct_txHash_step:
  "distinct (map trade_txHash ts) \<Longrightarrow> findUnique ts (trade_txHash t) = None \<Longrightarrow>
   distinct (map trade_txHash (ts @ [t]))"
  by (simp add: findUnique_None_iff)

lemma indexAgentTrades_trades:
  "store_trades (snd (indexAgentTrades env agentId walletAddress st)) = store_trades st \<or>
   (\<exists>currentBlock. getCurrentBlock (env_chain env) = Some currentBlock \<and>
      store_trades (snd (indexAgentTrades env agentId walletAddress st)) =
      store_trades (snd (indexSwaps env agentId
        (getSwapEventsForAddress (env_chain env) walletAddress
           (scanFromBlock (store_trades st) agentId currentBlock) currentBlock) 0 st)))"
  by (cases "getCurrentBlock (env_chain env)")
     (simp_all add: indexAgentTrades_def Let_def indexBlockRange_trades)

lemma existing_hash_skipped:
  assumes "\<exists>t\<in>set (store_trades st). trade_txHash t = swap_txHash swap"
  shows "indexSwap env agentId swap st = (Skipped, st)"
proof -
  from assms have "swap_txHash swap \<in> trade_txHash ` set (store_trades st)"
    by force
  then have "findUnique (store_trades st) (swap_txHash swap) \<noteq> None"
    by (simp add: findUnique_None_iff)
  then show ?thesis
    by (auto simp: indexSwap_def)
qed

text \<open>
  C10. The duplicate check of the indexer looks a candidate up by its transaction hash
  alone: when any row, of whichever agent, carries the hash, the loop body skips the
  candidate for every agent and leaves the store untouched. Hence, if no two rows of the
  table share a transaction hash before \<open>indexAgentTrades\<close> runs, none do after it, whether
  it returns or throws.
\<close>

theorem trade_hash_globally_unique:
  assumes "distinct (map trade_txHash (store_trades st))"
  shows "distinct (map trade_txHash
           (store_trades (snd (indexAgentTrades env agentId walletAddress st)))) \<and>
         (\<forall>swap otherAgent.
            (\<exists>t\<in>set (store_trades st). trade_txHash t = swap_txHash swap) \<longrightarrow>
            indexSwap env otherAgent swap st = (Skipped, st))"
proof
  show "distinct (map trade_txHash
           (store_trades (snd (indexAgentTrades env agentId walletAddress st))))"
    using indexAgentTrades_trades [of env agentId walletAddress st] assms
      indexSwaps_invariant [of "\<lambda>ts. distinct (map trade_txHash ts)" st, OF assms distinct_txHash_step]
    by auto
next
  show "\<forall>swap otherAgent.
            (\<exists>t\<in>set (store_trades st). trade_txHash t = swap_txHash swap) \<longrightarrow>
            indexSwap env otherAgent swap st = (Skipped, st)"
    using existing_hash_skipped by blast
qed

theorem trade_hash_globally_unique_witness:
  "distinct (map trade_txHash
     (store_trades (snd (indexAgentTrades swapExampleEnv ''agent-1'' agentA crossAgentStore)))) \<and>
   trade_agentId (hd (store_trades crossAgentStore)) = ''agent-2'' \<and>
   indexSwap swapExampleEnv ''agent-1'' swapExampleSwap crossAgentStore = (Skipped, crossAgentStore)"
proof -
  have d: "distinct (map trade_txHash (store_trades crossAgentStore))"
    by (simp add: crossAgentStore_def emptyStore_def)
  have e: "\<exists>t\<in>set (store_trades crossAgentStore). trade_txHash t = swap_txHash swapExampleSwap"
    by (simp add: crossAgentStore_def emptyStore_def syntheticTrade_def swapExampleSwap_def)
  have a: "trade_agentId (hd (store_trades crossAgentStore)) = ''agent-2''"
    by (simp add: crossAgentStore_def emptyStore_def syntheticTrade_def)
  from trade_hash_globally_unique [OF d, of swapExampleEnv "''agent-1''" agentA] e a
  show ?thesis by blast
qed

section \<open>Trade Indexer: the watermark\<close>

lemma maxByBlock_mem: "maxByBlock t us \<in> set (t # us)"
  by (induction us arbitrary: t) auto

lemma maxByBlock_ge: "u \<in> set (t # us) \<Longrightarrow> trade_blockNumber u \<le> trade_blockNumber (maxByBlock t us)"
proof (induction us arbitrary: t u)
  case Nil
  then show ?case by simp
next
  case (Cons v us)
  let ?t' = "if trade_blockNumber v > trade_blockNumber t then v else t"
  have t': "trade_blockNumber t \<le> trade_blockNumber ?t'" "trade_blockNumber v \<le> trade_blockNumber ?t'"
    by auto
  have top: "trade_blockNumber ?t' \<le> trade_blockNumber (maxByBlock ?t' us)"
    by (rule Cons.IH) simp
  from Cons.prems consider "u = t" | "u = v" | "u \<in> set us" by auto
  then show ?case
  proof cases
    case 1
    with t'(1) top show ?thesis by simp
  next
    case 2
    with t'(2) top show ?thesis by simp
  next
    case 3
    then have "trade_blockNumber u \<le> trade_blockNumber (maxByBlock ?t' us)"
      by (intro Cons.IH) simp
    then show ?thesis by simp
  qed
qed

lemma findFirstDesc_None: "findFirstDesc trades a = None \<longleftrightarrow> findManyByAgent trades a = []"
  by (simp add: findFirstDesc_def split: list.splits)

lemma findFirstDesc_Some:
  assumes "findFirstDesc trades a = Some t"
  shows "t \<in> set (findManyByAgent trades a)"
    and "\<forall>u\<in>set (findManyByAgent trades a). trade_blockNumber u \<le> trade_blockNumber t"
proof -
  from assms obtain t0 ts where m: "findManyByAgent trades a = t0 # ts" and t: "t = maxByBlock t0 ts"
    by (auto simp: findFirstDesc_def split: list.splits)
  show "t \<in> set (findManyByAgent trades a)"
    using maxByBlock_mem [of t0 ts] m t by simp
  show "\<forall>u\<in>set (findManyByAgent trades a). trade_blockNumber u \<le> trade_blockNumber t"
    using maxByBlock_ge [of _ t0 ts] m t by simp
qed

lemma getLogs_set:
  "getLogs chain flt fromBlock toBlock = Some ls \<Longrightarrow> l \<in> set ls \<Longrightarrow>
   l \<in> set (chain_logs chain) \<and> fromBlock \<le> log_blockNumber l \<and> log_blockNumber l \<le> toBlock"
  by (auto simp: getLogs_def split: if_splits)

lemma parseGroup_Some:
  assumes "parseGroup chain address g = Some s"
  shows "snd g \<noteq> []"
    and "\<exists>receipt. chain_receipts chain (fst g) = Some receipt \<and>
                   swap_blockNumber s = receipt_blockNumber receipt"
  using assms
  by (auto simp: parseGroup_def parseSwapFromTransfers_def Let_def split: if_splits option.splits)

lemma swaps_in_range:
  assumes "chainConsistent chain"
    and "s \<in> set (getSwapEventsForAddress chain address fromBlock toBlock)"
  shows "fromBlock \<le> swap_blockNumber s \<and> swap_blockNumber s \<le> toBlock"
proof -
  obtain transfersOut where
    out: "getLogs chain (FromIs address) fromBlock toBlock = Some transfersOut"
  proof (cases "getLogs chain (FromIs address) fromBlock toBlock")
    case None
    with assms(2) show ?thesis by (simp add: getSwapEventsForAddress_def)
  next
    case (Some a)
    then show ?thesis using that by blast
  qed
  obtain transfersIn where
    inn: "getLogs chain (ToIs address) fromBlock toBlock = Some transfersIn"
  proof (cases "getLogs chain (ToIs address) fromBlock toBlock")
    case None
    with assms(2) out show ?thesis by (simp add: getSwapEventsForAddress_def)
  next
    case (Some a)
    then show ?thesis using that by blast
  qed
  let ?all = "transfersOut @ transfersIn"
  from assms(2) out inn have "s \<in> set (List.map_filter (parseGroup chain address) (groupByTx ?all))"
    by (simp add: getSwapEventsForAddress_def Let_def)
  then obtain g where g: "g \<in> set (groupByTx ?all)" "parseGroup chain address g = Some s"
    by (auto simp: List.map_filter_def)
  from parseGroup_Some [OF g(2)] obtain receipt where
    ne: "snd g \<noteq> []" and rc: "chain_receipts chain (fst g) = Some receipt"
    and bn: "swap_blockNumber s = receipt_blockNumber receipt" by blast
  from g(1) have "(fst g, snd g) \<in> set (groupByTx ?all)" by simp
  then have "map_of (groupByTx ?all) (fst g) = Some (snd g)"
    using groupByTx_distinct [of ?all] by (simp only: map_of_eq_Some_iff)
  then have sg: "snd g = filter (\<lambda>t. log_transactionHash t = fst g) ?all"
    by (simp add: groupByTx_map_of split: if_splits)
  from ne obtain l where l: "l \<in> set (snd g)" by (cases "snd g") auto
  with sg have lh: "log_transactionHash l = fst g" and la: "l \<in> set ?all"
    by (metis (mono_tags, lifting) mem_Collect_eq set_filter)+
  from la out inn getLogs_set have
    lr: "l \<in> set (chain_logs chain) \<and> fromBlock \<le> log_blockNumber l \<and> log_blockNumber l \<le> toBlock"
    by (metis Un_iff set_append)
  with assms(1) lh rc have "receipt_blockNumber receipt = log_blockNumber l"
    by (auto simp: chainConsistent_def list_all_iff)
  with bn lr show ?thesis by simp
qed

lemma blocks_of_agent:
  "map trade_blockNumber (filter (\<lambda>t. trade_agentId t = a) trades) =
   map trade_blockNumber (findManyByAgent trades a)"
  by (simp add: findManyByAgent_def)

text \<open>The scan of a sweep starts at the block after the watermark, the lookback of an
  agent without trades being the block before \<open>currentBlock - 10000\<close>.\<close>

lemma scanFromBlock_watermark:
  "scanFromBlock trades agentId currentBlock =
   derivedWatermark trades agentId (currentBlock - 10000 - 1) + 1"
proof (cases "findFirstDesc trades agentId")
  case None
  moreover from None have "findManyByAgent trades agentId = []"
    by (simp add: findFirstDesc_None)
  ultimately show ?thesis
    by (simp add: derivedWatermark_def blocks_of_agent scanFromBlock_def)
next
  case (Some t)
  then have ne: "findManyByAgent trades agentId \<noteq> []"
    using findFirstDesc_None [of trades agentId] by simp
  have "Max (trade_blockNumber ` set (findManyByAgent trades agentId)) = trade_blockNumber t"
    using findFirstDesc_Some [OF Some] by (intro Max_eqI) auto
  with Some ne show ?thesis
    by (simp add: derivedWatermark_def blocks_of_agent scanFromBlock_def)
qed

lemma derivedWatermark_append:
  assumes "lookback \<le> lookback'"
    and "\<forall>t\<in>set new. lookback \<le> trade_blockNumber t \<or>
           filter (\<lambda>t. trade_agentId t = agentId) trades \<noteq> []"
  shows "derivedWatermark trades agentId lookback \<le>
         derivedWatermark (trades @ new) agentId lookback'"
proof -
  let ?old = "map trade_blockNumber (filter (\<lambda>t. trade_agentId t = agentId) trades)"
  let ?add = "map trade_blockNumber (filter (\<lambda>t. trade_agentId t = agentId) new)"
  show ?thesis
  proof (cases "?old = []")
    case True
    show ?thesis
    proof (cases "?add = []")
      case True
      with \<open>?old = []\<close> assms(1) show ?thesis by (simp add: derivedWatermark_def)
    next
      case False
      then obtain b where b: "b \<in> set ?add" by (cases ?add) auto
      then have "lookback \<le> b" using assms(2) True by auto
      also have "b \<le> Max (set ?add)" using b by simp
      finally show ?thesis using True False by (simp add: derivedWatermark_def)
    qed
  next
    case False
    then have ne: "set ?old \<noteq> {}" by (metis set_empty)
    have "Max (set ?old) \<le> Max (set ?old \<union> set ?add)"
      using ne by (intro Max_mono) simp_all
    with False show ?thesis by (simp add: derivedWatermark_def)
  qed
qed

text \<open>
  C5. On a consistent chain view, a sweep of \<open>indexAgentTrades\<close> that read the chain
  height \<open>currentBlock\<close> scans from the block after the watermark and only appends rows to
  the Trade table; each row it appends belongs to the agent and has a block number of at
  least watermark+1; and the watermark derived afterwards (with a chain height that has
  not gone back) is at least the watermark before the sweep. The watermark is the
  greatest block number among the agent's rows, or the lookback when it has none: the
  block before \<open>currentBlock - 10000\<close>, where the scan of such an agent starts. The
  watermark does not go back either when the lookback is counted as
  \<open>currentBlock - 10000\<close> itself. All of this holds whether the sweep returns or throws.
\<close>

theorem watermark_monotone:
  assumes "chainConsistent (env_chain env)"
    and "getCurrentBlock (env_chain env) = Some currentBlock"
    and "currentBlock \<le> laterBlock"
  shows "scanFromBlock (store_trades st) agentId currentBlock =
           derivedWatermark (store_trades st) agentId (currentBlock - 10000 - 1) + 1 \<and>
         (\<exists>new. store_trades (snd (indexAgentTrades env agentId walletAddress st)) =
                  store_trades st @ new \<and>
                (\<forall>t\<in>set new. trade_agentId t = agentId \<and>
                   derivedWatermark (store_trades st) agentId (currentBlock - 10000 - 1) + 1
                     \<le> trade_blockNumber t)) \<and>
         derivedWatermark (store_trades st) agentId (currentBlock - 10000 - 1) \<le>
         derivedWatermark (store_trades (snd (indexAgentTrades env agentId walletAddress st)))
           agentId (laterBlock - 10000 - 1) \<and>
         derivedWatermark (store_trades st) agentId (currentBlock - 10000) \<le>
         derivedWatermark (store_trades (snd (indexAgentTrades env agentId walletAddress st)))
           agentId (laterBlock - 10000)"
proof -
  let ?from = "scanFromBlock (store_trades st) agentId currentBlock"
  let ?swaps = "getSwapEventsForAddress (env_chain env) walletAddress ?from currentBlock"
  let ?st' = "snd (indexAgentTrades env agentId walletAddress st)"
  let ?mine = "filter (\<lambda>t. trade_agentId t = agentId) (store_trades st)"
  have tr: "store_trades ?st' = store_trades (snd (indexSwaps env agentId ?swaps 0 st))"
    using assms(2) by (simp add: indexAgentTrades_def Let_def indexBlockRange_trades)
  from indexSwaps_grows [of env agentId ?swaps 0 st] obtain new where
    new: "store_trades (snd (indexSwaps env agentId ?swaps 0 st)) = store_trades st @ new"
      "\<forall>t\<in>set new. trade_agentId t = agentId \<and>
            (\<exists>s\<in>set ?swaps. trade_blockNumber t = swap_blockNumber s)" by blast
  have inr: "\<forall>t\<in>set new. trade_agentId t = agentId \<and> ?from \<le> trade_blockNumber t"
    using new(2) swaps_in_range [OF assms(1)] by fastforce
  have app: "store_trades ?st' = store_trades st @ new"
    using tr new(1) by simp
  have start: "?from = derivedWatermark (store_trades st) agentId (currentBlock - 10000 - 1) + 1"
    by (rule scanFromBlock_watermark)
  have rows: "\<exists>new. store_trades ?st' = store_trades st @ new \<and>
                (\<forall>t\<in>set new. trade_agentId t = agentId \<and>
                   derivedWatermark (store_trades st) agentId (currentBlock - 10000 - 1) + 1
                     \<le> trade_blockNumber t)"
    using app inr start by auto
  have low: "\<forall>t\<in>set new. currentBlock - 10000 \<le> trade_blockNumber t \<or> ?mine \<noteq> []"
  proof
    fix t assume t: "t \<in> set new"
    show "currentBlock - 10000 \<le> trade_blockNumber t \<or> ?mine \<noteq> []"
    proof (cases "?mine = []")
      case True
      then have "findFirstDesc (store_trades st) agentId = None"
        by (simp add: findFirstDesc_None findManyByAgent_def)
      then have "?from = currentBlock - 10000" by (simp add: scanFromBlock_def)
      with inr t show ?thesis by auto
    next
      case False
      then show ?thesis by simp
    qed
  qed
  have mono1: "derivedWatermark (store_trades st) agentId (currentBlock - 10000 - 1) \<le>
               derivedWatermark (store_trades ?st') agentId (laterBlock - 10000 - 1)"
    unfolding app using assms(3) low
    by (intro derivedWatermark_append) fastforce+
  have mono2: "derivedWatermark (store_trades st) agentId (currentBlock - 10000) \<le>
               derivedWatermark (store_trades ?st') agentId (laterBlock - 10000)"
    unfolding app using assms(3) low
    by (intro derivedWatermark_append) fastforce+
  from start rows mono1 mono2 show ?thesis by blast
qed

lemma swapExample_candidates_from_seen:
  "getSwapEventsForAddress swapExampleChain agentA 18000051 18000200 = [swapExampleSwap]"
  by (simp add: getSwapEventsForAddress_def getLogs_def swapExampleChain_def groupByTx_def
      parseGroup_def parseSwapFromTransfers_def outboundOf_def inboundOf_def Let_def
      List.map_filter_simps swapExample_lower swapExampleSwap_def routerContract_def)

lemma seenStore_sweep:
  "map (\<lambda>t. (trade_agentId t, trade_blockNumber t))
     (store_trades (snd (indexAgentTrades swapExampleEnv ''agent-1'' agentA seenStore))) =
     [(''agent-1'', 18000050), (''agent-2'', 18000190), (''agent-1'', 18000120)]"
proof -
  have c: "env_chain swapExampleEnv = swapExampleChain" by (simp add: swapExampleEnv_def)
  have b: "getCurrentBlock swapExampleChain = Some 18000200"
    by (simp add: getCurrentBlock_def swapExampleChain_def)
  have f: "scanFromBlock (store_trades seenStore) ''agent-1'' 18000200 = 18000051"
    by (simp add: scanFromBlock_def findFirstDesc_def findManyByAgent_def seenStore_def
        emptyStore_def syntheticTrade_def)
  show ?thesis
    unfolding indexAgentTrades_def c b f option.case Let_def indexBlockRange_trades
      swapExample_candidates_from_seen
    by (simp add: indexSwap_def c swapExampleEnv_def swapExampleSwap_def seenStore_def
        emptyStore_def syntheticTrade_def findUnique_def getTokenInfo_def swapExampleChain_def
        publishEvent_def Let_def tokenX_def tokenY_def)
qed

theorem watermark_monotone_witness:
  "derivedWatermark (store_trades seenStore) ''agent-1'' (18000200 - 10000 - 1) = 18000050 \<and>
   scanFromBlock (store_trades seenStore) ''agent-1'' 18000200 = 18000051 \<and>
   map (\<lambda>t. (trade_agentId t, trade_blockNumber t))
     (store_trades (snd (indexAgentTrades swapExampleEnv ''agent-1'' agentA seenStore))) =
     [(''agent-1'', 18000050), (''agent-2'', 18000190), (''agent-1'', 18000120)] \<and>
   derivedWatermark (store_trades seenStore) ''agent-1'' (18000200 - 10000 - 1) \<le>
   derivedWatermark
     (store_trades (snd (indexAgentTrades swapExampleEnv ''agent-1'' agentA seenStore)))
     ''agent-1'' (18000205 - 10000 - 1)"
proof -
  have c: "chainConsistent (env_chain swapExampleEnv)"
    by (simp add: chainConsistent_def swapExampleEnv_def swapExampleChain_def)
  have b: "getCurrentBlock (env_chain swapExampleEnv) = Some 18000200"
    by (simp add: getCurrentBlock_def swapExampleEnv_def swapExampleChain_def)
  have l: "(18000200::int) \<le> 18000205" by simp
  have w: "derivedWatermark (store_trades seenStore) ''agent-1'' (18000200 - 10000 - 1) = 18000050"
    by (simp add: derivedWatermark_def seenStore_def emptyStore_def syntheticTrade_def)
  from watermark_monotone [OF c b l, of seenStore "''agent-1''" agentA] w seenStore_sweep
  show ?thesis by simp
qed

section \<open>Trade Indexer: a failing candidate\<close>

lemma example_tokenInfo:
  "getTokenInfo swapExampleChain tokenX =
     Some \<lparr>ti_address = tokenX, ti_name = ''Token X'', ti_symbol = ''TKX'', ti_decimals = 18\<rparr>"
  "getTokenInfo swapExampleChain tokenY =
     Some \<lparr>ti_address = tokenY, ti_name = ''Token Y'', ti_symbol = ''TKY'', ti_decimals = 18\<rparr>"
  "getTokenInfo swapExampleChain ''0x00000000000000000000000000000000000000cc'' = None"
  by (simp_all add: getTokenInfo_def swapExampleChain_def tokenX_def tokenY_def)

lemma example_env_fields:
  "env_chain failingCreateEnv = swapExampleChain"
  "env_chain redisDownEnv = swapExampleChain"
  "env_createFails failingCreateEnv ''0xf00d''"
  "\<not> env_createFails failingCreateEnv ''0xbeef''"
  "\<not> env_createFails redisDownEnv ''0xf00d''"
  "env_redisDown redisDownEnv"
  "\<not> env_redisDown failingCreateEnv"
  by (simp_all add: failingCreateEnv_def redisDownEnv_def swapExampleEnv_def)

lemma example_swap_fields:
  "swap_txHash swapExampleSwap = ''0xf00d''"
  "swap_tokenIn swapExampleSwap = tokenY"
  "swap_tokenOut swapExampleSwap = tokenX"
  "swap_txHash secondSwap = ''0xbeef''"
  "swap_tokenIn secondSwap = tokenY"
  "swap_tokenOut secondSwap = tokenX"
  "swap_txHash unreadableTokenSwap = ''0xdead''"
  "swap_tokenIn unreadableTokenSwap = ''0x00000000000000000000000000000000000000cc''"
  by (simp_all add: swapExampleSwap_def secondSwap_def unreadableTokenSwap_def)

lemma indexSwap_create_fails:
  assumes "findUnique (store_trades st) (swap_txHash swap) = None"
    and "getTokenInfo (env_chain env) (swap_tokenIn swap) \<noteq> None"
    and "getTokenInfo (env_chain env) (swap_tokenOut swap) \<noteq> None"
    and "env_createFails env (swap_txHash swap)"
  shows "fst (indexSwap env agentId swap st) = Threw DbError"
    and "store_trades (snd (indexSwap env agentId swap st)) = store_trades st"
  using assms by (auto simp: indexSwap_def Let_def)

lemma indexSwap_publish_fails:
  assumes "findUnique (store_trades st) (swap_txHash swap) = None"
    and "getTokenInfo (env_chain env) (swap_tokenIn swap) \<noteq> None"
    and "getTokenInfo (env_chain env) (swap_tokenOut swap) \<noteq> None"
    and "\<not> env_createFails env (swap_txHash swap)"
    and "env_redisDown env"
  shows "fst (indexSwap env agentId swap st) = Threw RedisError"
    and "\<exists>t. store_trades (snd (indexSwap env agentId swap st)) = store_trades st @ [t] \<and>
             trade_txHash t = swap_txHash swap"
  using assms by (auto simp: indexSwap_def Let_def publishEvent_def)

lemma indexSwap_created:
  assumes "findUnique (store_trades st) (swap_txHash swap) = None"
    and "getTokenInfo (env_chain env) (swap_tokenIn swap) \<noteq> None"
    and "getTokenInfo (env_chain env) (swap_tokenOut swap) \<noteq> None"
    and "\<not> env_createFails env (swap_txHash swap)"
    and "\<not> env_redisDown env"
  shows "fst (indexSwap env agentId swap st) = Indexed"
    and "map trade_txHash (store_trades (snd (indexSwap env agentId swap st))) =
         map trade_txHash (store_trades st) @ [swap_txHash swap]"
  using assms by (auto simp: indexSwap_def Let_def publishEvent_def)

lemma indexSwaps_Threw:
  "fst (indexSwap env agentId swap st) = Threw e \<Longrightarrow>
   indexSwaps env agentId (swap # rest) indexed st = (Inl e, snd (indexSwap env agentId swap st))"
  by (cases "indexSwap env agentId swap st") simp

lemma indexSwaps_Skipped:
  "candidateSkipped env swap (store_trades st) \<Longrightarrow>
   indexSwaps env agentId (swap # rest) indexed st = indexSwaps env agentId rest indexed st"
  using indexSwap_Skipped_iff [of env agentId swap st] indexSwap_Skipped_store [of env agentId swap st]
  by (cases "indexSwap env agentId swap st") simp

lemma indexSwaps_Indexed:
  "fst (indexSwap env agentId swap st) = Indexed \<Longrightarrow>
   indexSwaps env agentId (swap # rest) indexed st =
   indexSwaps env agentId rest (indexed + 1) (snd (indexSwap env agentId swap st))"
  by (cases "indexSwap env agentId swap st") simp

text \<open>
  C7, as the specification states it, fails: when \<open>prisma.trade.create\<close> throws for the
  first of two candidates, the pass ends with that error, and the second candidate, which
  on its own would have been indexed, is never processed.
\<close>

theorem candidate_failure_aborts_pass:
  "fst (indexSwaps failingCreateEnv ''agent-1'' [swapExampleSwap, secondSwap] 0 emptyStore) =
     Inl DbError \<and>
   store_trades (snd (indexSwaps failingCreateEnv ''agent-1'' [swapExampleSwap, secondSwap] 0
     emptyStore)) = [] \<and>
   fst (indexSwaps failingCreateEnv ''agent-1'' [secondSwap] 0 emptyStore) = Inr 1 \<and>
   map trade_txHash (store_trades (snd (indexSwaps failingCreateEnv ''agent-1'' [secondSwap] 0
     emptyStore))) = [''0xbeef'']"
proof -
  have e: "findUnique [] h = None" for h
    by (simp add: findUnique_def)
  have t: "store_trades emptyStore = []" by (simp add: emptyStore_def)
  have a: "fst (indexSwap failingCreateEnv ''agent-1'' swapExampleSwap emptyStore) = Threw DbError"
    "store_trades (snd (indexSwap failingCreateEnv ''agent-1'' swapExampleSwap emptyStore)) = []"
    using indexSwap_create_fails [of emptyStore swapExampleSwap failingCreateEnv "''agent-1''"]
    by (simp_all add: e t example_env_fields example_swap_fields example_tokenInfo)
  have b: "fst (indexSwap failingCreateEnv ''agent-1'' secondSwap emptyStore) = Indexed"
    "map trade_txHash (store_trades (snd (indexSwap failingCreateEnv ''agent-1'' secondSwap emptyStore))) = [''0xbeef'']"
    using indexSwap_created [of emptyStore secondSwap failingCreateEnv "''agent-1''"]
    by (simp_all add: e t example_env_fields example_swap_fields example_tokenInfo)
  show ?thesis
    by (simp add: indexSwaps_Threw [OF a(1)] a(2) indexSwaps_Indexed [OF b(1)] b(2)
        del: indexSwaps.simps(2))
qed

text \<open>
  C7, amended. A failed token-info lookup makes the loop skip that candidate only: the
  pass goes on with the remaining candidates as if the candidate were not in the batch.
  Price resolution has no error result. A throw of the store while persisting the row
  ends the pass at once with that error and without the row; a throw of the publish
  that follows ends it with the row persisted. In both cases the remaining candidates
  are not processed and what earlier candidates wrote stays.
\<close>

theorem candidate_failure_amended:
  "(getTokenInfo (env_chain env) (swap_tokenIn swap) = None \<or>
    getTokenInfo (env_chain env) (swap_tokenOut swap) = None \<longrightarrow>
      indexSwaps env agentId (swap # rest) indexed st = indexSwaps env agentId rest indexed st) \<and>
   (findUnique (store_trades st) (swap_txHash swap) = None \<and>
    getTokenInfo (env_chain env) (swap_tokenIn swap) \<noteq> None \<and>
    getTokenInfo (env_chain env) (swap_tokenOut swap) \<noteq> None \<and>
    env_createFails env (swap_txHash swap) \<longrightarrow>
      fst (indexSwaps env agentId (swap # rest) indexed st) = Inl DbError \<and>
      store_trades (snd (indexSwaps env agentId (swap # rest) indexed st)) = store_trades st) \<and>
   (findUnique (store_trades st) (swap_txHash swap) = None \<and>
    getTokenInfo (env_chain env) (swap_tokenIn swap) \<noteq> None \<and>
    getTokenInfo (env_chain env) (swap_tokenOut swap) \<noteq> None \<and>
    \<not> env_createFails env (swap_txHash swap) \<and> env_redisDown env \<longrightarrow>
      fst (indexSwaps env agentId (swap # rest) indexed st) = Inl RedisError \<and>
      (\<exists>t. store_trades (snd (indexSwaps env agentId (swap # rest) indexed st)) =
             store_trades st @ [t] \<and> trade_txHash t = swap_txHash swap))"
proof (intro conjI impI)
  assume "getTokenInfo (env_chain env) (swap_tokenIn swap) = None \<or>
    getTokenInfo (env_chain env) (swap_tokenOut swap) = None"
  then have "candidateSkipped env swap (store_trades st)"
    by (auto simp: candidateSkipped_def)
  then show "indexSwaps env agentId (swap # rest) indexed st = indexSwaps env agentId rest indexed st"
    by (rule indexSwaps_Skipped)
next
  assume h: "findUnique (store_trades st) (swap_txHash swap) = None \<and>
    getTokenInfo (env_chain env) (swap_tokenIn swap) \<noteq> None \<and>
    getTokenInfo (env_chain env) (swap_tokenOut swap) \<noteq> None \<and>
    env_createFails env (swap_txHash swap)"
  then have f: "fst (indexSwap env agentId swap st) = Threw DbError"
    and s: "store_trades (snd (indexSwap env agentId swap st)) = store_trades st"
    using indexSwap_create_fails [of st swap env agentId] by blast+
  show "fst (indexSwaps env agentId (swap # rest) indexed st) = Inl DbError"
    by (simp add: indexSwaps_Threw [OF f] del: indexSwaps.simps(2))
  show "store_trades (snd (indexSwaps env agentId (swap # rest) indexed st)) = store_trades st"
    by (simp add: indexSwaps_Threw [OF f] s del: indexSwaps.simps(2))
next
  assume h: "findUnique (store_trades st) (swap_txHash swap) = None \<and>
    getTokenInfo (env_chain env) (swap_tokenIn swap) \<noteq> None \<and>
    getTokenInfo (env_chain env) (swap_tokenOut swap) \<noteq> None \<and>
    \<not> env_createFails env (swap_txHash swap) \<and> env_redisDown env"
  then have f: "fst (indexSwap env agentId swap st) = Threw RedisError"
    and s: "\<exists>t. store_trades (snd (indexSwap env agentId swap st)) = store_trades st @ [t] \<and>
             trade_txHash t = swap_txHash swap"
    using indexSwap_publish_fails [of st swap env agentId] by blast+
  show "fst (indexSwaps env agentId (swap # rest) indexed st) = Inl RedisError"
    by (simp add: indexSwaps_Threw [OF f] del: indexSwaps.simps(2))
  show "\<exists>t. store_trades (snd (indexSwaps env agentId (swap # rest) indexed st)) =
             store_trades st @ [t] \<and> trade_txHash t = swap_txHash swap"
    using s by (simp add: indexSwaps_Threw [OF f] del: indexSwaps.simps(2))
qed

theorem candidate_failure_amended_witness:
  "indexSwaps swapExampleEnv ''agent-1'' [unreadableTokenSwap, secondSwap] 0 emptyStore =
     indexSwaps swapExampleEnv ''agent-1'' [secondSwap] 0 emptyStore \<and>
   fst (indexSwaps failingCreateEnv ''agent-1'' [swapExampleSwap, secondSwap] 0 emptyStore) =
     Inl DbError \<and>
   store_trades (snd (indexSwaps failingCreateEnv ''agent-1'' [swapExampleSwap, secondSwap] 0
     emptyStore)) = store_trades emptyStore \<and>
   fst (indexSwaps redisDownEnv ''agent-1'' [swapExampleSwap, secondSwap] 0 emptyStore) =
     Inl RedisError \<and>
   map trade_txHash (store_trades (snd (indexSwaps redisDownEnv ''agent-1''
     [swapExampleSwap, secondSwap] 0 emptyStore))) = [''0xf00d'']"
proof -
  have e: "findUnique [] h = None" for h
    by (simp add: findUnique_def)
  have t: "store_trades emptyStore = []" by (simp add: emptyStore_def)
  have c: "env_chain swapExampleEnv = swapExampleChain" by (simp add: swapExampleEnv_def)
  from candidate_failure_amended
         [of swapExampleEnv unreadableTokenSwap "''agent-1''" "[secondSwap]" 0 emptyStore]
  have p1: "indexSwaps swapExampleEnv ''agent-1'' [unreadableTokenSwap, secondSwap] 0 emptyStore =
     indexSwaps swapExampleEnv ''agent-1'' [secondSwap] 0 emptyStore"
    by (simp add: c example_swap_fields example_tokenInfo del: indexSwaps.simps(2))
  from candidate_failure_amended
         [of failingCreateEnv swapExampleSwap "''agent-1''" "[secondSwap]" 0 emptyStore]
  have p2: "fst (indexSwaps failingCreateEnv ''agent-1'' [swapExampleSwap, secondSwap] 0 emptyStore) =
     Inl DbError \<and>
   store_trades (snd (indexSwaps failingCreateEnv ''agent-1'' [swapExampleSwap, secondSwap] 0
     emptyStore)) = store_trades emptyStore"
    by (simp add: e t example_env_fields example_swap_fields example_tokenInfo
        del: indexSwaps.simps(2))
  from candidate_failure_amended
         [of redisDownEnv swapExampleSwap "''agent-1''" "[secondSwap]" 0 emptyStore]
  have p3: "fst (indexSwaps redisDownEnv ''agent-1'' [swapExampleSwap, secondSwap] 0 emptyStore) =
     Inl RedisError \<and>
   map trade_txHash (store_trades (snd (indexSwaps redisDownEnv ''agent-1''
     [swapExampleSwap, secondSwap] 0 emptyStore))) = [''0xf00d'']"
    by (auto simp: e t example_env_fields example_swap_fields example_tokenInfo
        simp del: indexSwaps.simps(2))
  from p1 p2 p3 show ?thesis by blast
qed

section \<open>Trade Indexer: idempotency\<close>













section \<open>Trade Indexer: the sign of the stored profit\<close>

lemma base_tokens_lower:
  "toLowerCase WETH = ''0x4200000000000000000000000000000000000006''"
  "toLowerCase USDC = ''0x833589fcd6edb6e08f4c7c32d4f71b54bda02913''"
  "toLowerCase DAI = ''0x50c5725949a6f0c72e6c4a641f24049a917db0cb''"
  "toLowerCase USDT = ''0xfde4c96c8593536e31f229ea8f37b2ada2699bb2''"
  by (simp_all add: toLowerCase_def lowerChar_def WETH_def USDC_def DAI_def USDT_def)

lemma profitExample_candidates:
  "getSwapEventsForAddress profitExampleChain agentA (18000200 - 10000) 18000200 =
     [\<lparr>swap_txHash = ''0xcafe'', swap_blockNumber = 18000150, swap_timestamp = 1700000000,
       swap_tokenIn = DAI, swap_tokenOut = USDC,
       swap_amountIn = 150000000000000000000, swap_amountOut = 100000000,
       swap_from = agentA, swap_to = poolContract\<rparr>]"
  by (simp add: getSwapEventsForAddress_def getLogs_def profitExampleChain_def groupByTx_def
      parseGroup_def parseSwapFromTransfers_def outboundOf_def inboundOf_def Let_def
      List.map_filter_simps swapExample_lower poolContract_def)

lemma profitExample_values:
  "calculateUsdValue FetchNotOk now Map.empty DAI 150000000000000000000 18 =
     (150, [toLowerCase DAI \<mapsto> \<lparr>cache_price = 1, cache_timestamp = now\<rparr>])"
  "calculateUsdValue FetchNotOk now [toLowerCase DAI \<mapsto> \<lparr>cache_price = 1, cache_timestamp = now\<rparr>]
       USDC 100000000 6 =
     (100, [toLowerCase DAI \<mapsto> \<lparr>cache_price = 1, cache_timestamp = now\<rparr>,
            toLowerCase USDC \<mapsto> \<lparr>cache_price = 1, cache_timestamp = now\<rparr>])"
  "fst (calculateUsdValue FetchNotOk now Map.empty USDC 100000000 6) = 100"
  by (simp_all add: calculateUsdValue_def getTokenPriceUsd_def getPriceFromUniswap_def
      isStablecoin_def base_tokens_lower Let_def)

text \<open>For every row the loop body persists: the stored profit is the value of the row's
  \<open>tokenIn\<close> leg (what the agent sent) minus the value of its \<open>tokenOut\<close> leg (what the
  agent received), the received leg being valued first.\<close>

lemma stored_profit_law:
  assumes "fst (indexSwap env agentId swap st) = Indexed"
  shows "\<exists>t. store_trades (snd (indexSwap env agentId swap st)) = store_trades st @ [t] \<and>
             trade_profitLossUsd t =
               legValueUsd env
                 (snd (calculateUsdValue (env_fetch env) (env_now env) (store_priceCache st)
                         (trade_tokenOutAddress t) (trade_amountOut t) (trade_tokenOutDecimals t)))
                 (trade_tokenInAddress t) (trade_amountIn t) (trade_tokenInDecimals t) -
               legValueUsd env (store_priceCache st)
                 (trade_tokenOutAddress t) (trade_amountOut t) (trade_tokenOutDecimals t)"
  using assms
  by (auto simp: indexSwap_def Let_def publishEvent_def legValueUsd_def
      split: option.splits if_splits)

text \<open>
  C1 at the example. The persisted row names USDC with amount 100000000 as its
  \<open>tokenIn\<close>/\<open>amountIn\<close> (the leg the agent sent, worth 100 USD) and DAI with amount
  150 * 10^18 as its \<open>tokenOut\<close>/\<open>amountOut\<close> (the leg the agent received, worth 150 USD).
  The value of the received leg minus the value of the sent leg is +50, and the row
  stores \<open>profitLossUsd = -50\<close>: the value of what was sent minus the value of what was
  received.
\<close>

theorem stored_profit_is_sent_minus_received:
  "map (\<lambda>t. (trade_tokenInAddress t, trade_amountIn t, trade_tokenInDecimals t,
             trade_tokenOutAddress t, trade_amountOut t, trade_tokenOutDecimals t,
             trade_profitLossUsd t))
     (store_trades (snd (indexAgentTrades profitExampleEnv ''agent-1'' agentA emptyStore))) =
     [(USDC, 100000000, 6, DAI, 150000000000000000000, 18, - 50)] \<and>
   legValueUsd profitExampleEnv Map.empty DAI 150000000000000000000 18 -
   legValueUsd profitExampleEnv Map.empty USDC 100000000 6 = 50"
proof -
  have c: "env_chain profitExampleEnv = profitExampleChain"
    by (simp add: profitExampleEnv_def)
  have b: "getCurrentBlock profitExampleChain = Some 18000200"
    by (simp add: getCurrentBlock_def profitExampleChain_def)
  have f: "scanFromBlock (store_trades emptyStore) ''agent-1'' 18000200 = 18000200 - 10000"
    by (simp add: scanFromBlock_def findFirstDesc_def findManyByAgent_def emptyStore_def)
  have i: "getTokenInfo profitExampleChain DAI =
             Some \<lparr>ti_address = DAI, ti_name = ''Dai Stablecoin'', ti_symbol = ''DAI'', ti_decimals = 18\<rparr>"
          "getTokenInfo profitExampleChain USDC =
             Some \<lparr>ti_address = USDC, ti_name = ''USD Coin'', ti_symbol = ''USDC'', ti_decimals = 6\<rparr>"
    by (simp_all add: getTokenInfo_def profitExampleChain_def USDC_def DAI_def)
  have e: "env_fetch profitExampleEnv = FetchNotOk" "\<not> env_createFails profitExampleEnv h"
    "\<not> env_redisDown profitExampleEnv" for h
    by (simp_all add: profitExampleEnv_def)
  have s: "store_trades emptyStore = []" "store_priceCache emptyStore = Map.empty"
    by (simp_all add: emptyStore_def)
  have rows: "map (\<lambda>t. (trade_tokenInAddress t, trade_amountIn t, trade_tokenInDecimals t,
             trade_tokenOutAddress t, trade_amountOut t, trade_tokenOutDecimals t,
             trade_profitLossUsd t))
     (store_trades (snd (indexAgentTrades profitExampleEnv ''agent-1'' agentA emptyStore))) =
     [(USDC, 100000000, 6, DAI, 150000000000000000000, 18, - 50)]"
    unfolding indexAgentTrades_def c b f option.case Let_def indexBlockRange_trades
      profitExample_candidates
    by (simp add: indexSwap_def c i e s findUnique_def profitExample_values publishEvent_def Let_def)
  have legs: "legValueUsd profitExampleEnv Map.empty DAI 150000000000000000000 18 -
              legValueUsd profitExampleEnv Map.empty USDC 100000000 6 = 50"
    by (simp add: legValueUsd_def e profitExample_values)
  from rows legs show ?thesis by blast
qed

section \<open>Event Bus: routing of a relayed event\<close>



section \<open>Rate Limiter\<close>

lemma length_filter_mono:
  "(\<And>x. P x \<Longrightarrow> Q x) \<Longrightarrow> length (filter P xs) \<le> length (filter Q xs)"
  by (induction xs) auto

lemma foldl_min_le: "foldl min (a::int) xs \<le> a \<and> (\<forall>x\<in>set xs. foldl min a xs \<le> x)"
proof (induction xs arbitrary: a)
  case Nil
  show ?case by simp
next
  case (Cons x xs)
  from Cons [of "min a x"] show ?case by auto
qed

lemma oldestScore_le:
  "e \<in> set entries \<Longrightarrow> \<exists>m. oldestScore entries = Some m \<and> m \<le> fst e"
  using foldl_min_le by (cases entries) (auto simp: oldestScore_def)

lemma ceiling_div_1000_le:
  assumes "x \<le> w" and "0 < w"
  shows "\<lceil>(of_int x :: rat) / 1000\<rceil> \<le> w" and "\<lceil>(of_int x :: rat) / 1000\<rceil> \<le> \<lceil>(of_int w :: rat) / 1000\<rceil>"
proof -
  show "\<lceil>(of_int x :: rat) / 1000\<rceil> \<le> \<lceil>(of_int w :: rat) / 1000\<rceil>"
    using assms(1) by (intro ceiling_mono) (simp add: divide_right_mono)
  have "(of_int w :: rat) / 1000 \<le> of_int w"
    using assms(2) by simp
  then have "\<lceil>(of_int w :: rat) / 1000\<rceil> \<le> w"
    by (simp add: ceiling_le_iff)
  with \<open>\<lceil>(of_int x :: rat) / 1000\<rceil> \<le> \<lceil>(of_int w :: rat) / 1000\<rceil>\<close>
  show "\<lceil>(of_int x :: rat) / 1000\<rceil> \<le> w" by simp
qed

lemma rejected_when_window_full:
  assumes "maxRequests config = 2" and "0 < windowMs config"
    and "2 \<le> length (filter (\<lambda>e. now - windowMs config < fst e) (liveEntries redis key now))"
  shows "reply_status (fst (checkRateLimit config key now rnd redis)) = Some 429"
    and "\<exists>r. reply_retryAfter (fst (checkRateLimit config key now rnd redis)) = Some r \<and>
             r \<le> windowMs config \<and> r \<le> \<lceil>(of_int (windowMs config) :: rat) / 1000\<rceil>"
proof -
  let ?pruned = "zremrangebyscore (liveEntries redis key now) 0 (now - windowMs config)"
  let ?added = "zadd ?pruned now (now, rnd)"
  have "length (filter (\<lambda>e. now - windowMs config < fst e) (liveEntries redis key now)) \<le>
        length ?pruned"
    unfolding zremrangebyscore_def by (rule length_filter_mono) simp
  with assms(3) have full: "maxRequests config \<le> zcard ?pruned"
    by (simp add: zcard_def assms(1))
  have "(now, (now, rnd)) \<in> set ?added" by (simp add: zadd_def)
  from oldestScore_le [OF this] obtain m where
    m: "oldestScore ?added = Some m" "m \<le> now" by auto
  from full show "reply_status (fst (checkRateLimit config key now rnd redis)) = Some 429"
    by (simp add: checkRateLimit_def Let_def)
  have "m + windowMs config - now \<le> windowMs config" using m(2) by simp
  from ceiling_div_1000_le [OF this assms(2)] full m(1)
  show "\<exists>r. reply_retryAfter (fst (checkRateLimit config key now rnd redis)) = Some r \<and>
             r \<le> windowMs config \<and> r \<le> \<lceil>(of_int (windowMs config) :: rat) / 1000\<rceil>"
    by (simp add: checkRateLimit_def Let_def)
qed

lemma accepted_when_window_elapsed:
  assumes "maxRequests config = 2"
    and "\<forall>e\<in>set (liveEntries redis key now). 0 \<le> fst e \<and> fst e \<le> now - windowMs config"
  shows "reply_status (fst (checkRateLimit config key now rnd redis)) = None"
proof -
  have "zremrangebyscore (liveEntries redis key now) 0 (now - windowMs config) = []"
    using assms(2) by (auto simp: zremrangebyscore_def filter_empty_conv)
  then show ?thesis
    by (simp add: checkRateLimit_def Let_def zcard_def assms(1))
qed

text \<open>
  C9. For a key with limit 2 and a window of length \<open>w > 0\<close> (\<open>windowMs\<close>): when the
  sorted set of the key holds at least two entries inside the trailing window (scores
  above \<open>now - w\<close>), \<open>checkRateLimit\<close> answers 429 with a \<open>retryAfter\<close> that: is at most
  \<open>w\<close>, and at most \<open>w\<close> in seconds rounded up. When every entry of the key has fallen
  outside the window (scores from 0 to \<open>now - w\<close>), the request is let through.
\<close>

theorem rate_limit_window:
  assumes "maxRequests config = 2" and "0 < windowMs config"
  shows "(2 \<le> length (filter (\<lambda>e. now - windowMs config < fst e) (liveEntries redis key now)) \<longrightarrow>
            reply_status (fst (checkRateLimit config key now rnd redis)) = Some 429 \<and>
            (\<exists>r. reply_retryAfter (fst (checkRateLimit config key now rnd redis)) = Some r \<and>
                  r \<le> windowMs config \<and> r \<le> \<lceil>(of_int (windowMs config) :: rat) / 1000\<rceil>)) \<and>
         ((\<forall>e\<in>set (liveEntries redis key now). 0 \<le> fst e \<and> fst e \<le> now - windowMs config) \<longrightarrow>
            reply_status (fst (checkRateLimit config key now rnd redis)) = None)"
  using rejected_when_window_full [OF assms] accepted_when_window_elapsed [OF assms(1)]
  by blast

lemma ceiling_small:
  "\<lceil>(1::rat) / 500\<rceil> = 1" "\<lceil>(1::rat) / 1000\<rceil> = 1"
  by (rule ceiling_unique; simp)+

lemma afterTwo_entries:
  "reply_status (fst (checkRateLimit twoPerTwo testKey 10 (1/10) Map.empty)) = None"
  "reply_status (fst (checkRateLimit twoPerTwo testKey 11 (2/10)
       (snd (checkRateLimit twoPerTwo testKey 10 (1/10) Map.empty)))) = None"
  "liveEntries afterTwo testKey 11 = [(10, (10, 1/10)), (11, (11, 2/10))]"
  "liveEntries afterThree testKey 13 = [(10, (10, 1/10)), (11, (11, 2/10)), (11, (11, 3/10))]"
  by (simp_all add: afterThree_def afterTwo_def checkRateLimit_def twoPerTwo_def liveEntries_def
      zremrangebyscore_def zcard_def zadd_def oldestScore_def Let_def ceiling_small)

theorem rate_limit_window_witness:
  "reply_status (fst (checkRateLimit twoPerTwo testKey 10 (1/10) Map.empty)) = None \<and>
   reply_status (fst (checkRateLimit twoPerTwo testKey 11 (2/10)
       (snd (checkRateLimit twoPerTwo testKey 10 (1/10) Map.empty)))) = None \<and>
   reply_status (fst (checkRateLimit twoPerTwo testKey 11 (3/10) afterTwo)) = Some 429 \<and>
   reply_retryAfter (fst (checkRateLimit twoPerTwo testKey 11 (3/10) afterTwo)) = Some 1 \<and>
   reply_status (fst (checkRateLimit twoPerTwo testKey 13 (4/10) afterThree)) = None"
proof -
  have m: "maxRequests twoPerTwo = 2" and w: "0 < windowMs twoPerTwo"
    by (simp_all add: twoPerTwo_def)
  have full: "2 \<le> length (filter (\<lambda>e. 11 - windowMs twoPerTwo < fst e)
                (liveEntries afterTwo testKey 11))"
    by (simp add: afterTwo_entries twoPerTwo_def)
  have gone: "\<forall>e\<in>set (liveEntries afterThree testKey 13).
                0 \<le> fst e \<and> fst e \<le> 13 - windowMs twoPerTwo"
    by (simp add: afterTwo_entries twoPerTwo_def)
  have r: "reply_retryAfter (fst (checkRateLimit twoPerTwo testKey 11 (3/10) afterTwo)) = Some 1"
    using afterTwo_entries(3)
    by (simp add: checkRateLimit_def twoPerTwo_def zremrangebyscore_def zcard_def zadd_def
        oldestScore_def Let_def ceiling_small)
  from rate_limit_window [OF m w, of 11 afterTwo testKey "3/10"] full
  have a: "reply_status (fst (checkRateLimit twoPerTwo testKey 11 (3/10) afterTwo)) = Some 429"
    by blast
  from rate_limit_window [OF m w, of 13 afterThree testKey "4/10"] gone
  have b: "reply_status (fst (checkRateLimit twoPerTwo testKey 13 (4/10) afterThree)) = None"
    by blast
  from a b r afterTwo_entries(1,2) show ?thesis by blast
qed

end
